theory Spec2Isabelle
  imports Complex_Main "HOL-Library.AList"
begin

section \<open>Numeric values\<close>

text \<open>
  The numbers that flow through \<^verbatim>\<open>pyomo/repn/linear.py\<close> are Python numbers. They are
  modelled as exact rationals extended with NaN: the rules of the module only ever ask
  whether a number is zero (\<^verbatim>\<open>not a\<close>), whether it is NaN (\<^verbatim>\<open>a != a\<close>), whether it equals
  one, and combine numbers with \<^verbatim>\<open>+\<close>, \<^verbatim>\<open>*\<close> and \<^verbatim>\<open>/\<close>. Rounding, overflow to infinity and
  complex values are outside this model.
\<close>

datatype numval = Val rat | NaN

datatype error =
    NameError | ZeroDivisionError | TypeError | ValueError | KeyError
  | AttributeError | AssertionError | EvaluationError

text \<open>\<^verbatim>\<open>bool(a)\<close>: a number is false exactly when it is zero; NaN is true.\<close>

fun truthy :: "numval \<Rightarrow> bool" where
  "truthy (Val r) = (r \<noteq> 0)"
| "truthy NaN = True"

text \<open>\<^verbatim>\<open>a != a\<close> holds exactly for NaN.\<close>

fun is_nan :: "numval \<Rightarrow> bool" where
  "is_nan (Val r) = False"
| "is_nan NaN = True"

fun num_add :: "numval \<Rightarrow> numval \<Rightarrow> numval" where
  "num_add (Val a) (Val b) = Val (a + b)"
| "num_add _ _ = NaN"

fun num_mul :: "numval \<Rightarrow> numval \<Rightarrow> numval" where
  "num_mul (Val a) (Val b) = Val (a * b)"
| "num_mul _ _ = NaN"

text \<open>\<^verbatim>\<open>a / b\<close> on Python numbers raises \<^verbatim>\<open>ZeroDivisionError\<close> when \<^verbatim>\<open>b\<close> is zero.\<close>

fun num_div :: "numval \<Rightarrow> numval \<Rightarrow> error + numval" where
  "num_div a (Val b) =
     (if b = 0 then Inl ZeroDivisionError
      else (case a of Val q \<Rightarrow> Inr (Val (q / b)) | NaN \<Rightarrow> Inr NaN))"
| "num_div a NaN = Inr NaN"

section \<open>Expressions\<close>

text \<open>
  The node classes that \<^verbatim>\<open>linear.py\<close> dispatches on. \<open>Native\<close> is a native numeric
  literal, \<open>Var\<close> a variable leaf and \<open>Param\<close> a leaf that is never variable, both named
  by their identity (\<^verbatim>\<open>id(obj)\<close>); \<open>ScalarExpression\<close> stands for
  every class of \<^verbatim>\<open>_named_subexpression_types\<close>, with the identity of the node and its
  body; \<open>MonomialTermExpression\<close> holds the coefficient and the identity of the variable.
  The operator nodes are the classes the module registers handlers for.
\<close>

datatype expr =
    Native numval
  | Var nat
  | Param nat
  | NegationExpression expr
  | ProductExpression expr expr
  | DivisionExpression expr expr
  | PowExpression expr expr
  | UnaryFunctionExpression string expr
  | AbsExpression expr
  | ScalarExpression nat expr
  | Expr_ifExpression expr expr expr
  | MonomialTermExpression expr nat
  | LinearExpression "expr list"
  | SumExpression "expr list"
  | ExternalFunctionExpression nat "expr list"

section \<open>The canonical result\<close>

datatype ExprType = CONSTANT | LINEAR | GENERAL

text \<open>
  \<^verbatim>\<open>class LinearRepn\<close>. The dictionary \<^verbatim>\<open>linear\<close> is an association list in insertion
  order: assigning to an existing key keeps its place, a new key goes to the end
  (\<open>AList.update\<close>), \<^verbatim>\<open>del\<close> is \<open>AList.delete\<close>, a lookup is \<open>map_of\<close>.
\<close>

record LinearRepn =
  multiplier :: numval
  "constant" :: numval
  linear :: "(nat \<times> numval) list"
  nonlinear :: "expr option"

text \<open>\<^verbatim>\<open>LinearRepn.__init__\<close>\<close>

definition Result :: LinearRepn where
  "Result = \<lparr>multiplier = Val 1, constant = Val 0, linear = [], nonlinear = None\<rparr>"

text \<open>
  A classification is a Python pair \<^verbatim>\<open>(tag, payload)\<close>; the payload is a bare number or a
  \<^verbatim>\<open>LinearRepn\<close>, and nothing in the language ties it to the tag.
\<close>

datatype payload = Bare numval | Repn LinearRepn

type_synonym result = "ExprType \<times> payload"

text \<open>
  The arguments handed to \<^verbatim>\<open>apply_node_operation\<close>: payloads, or whole
  \<^verbatim>\<open>(tag, payload)\<close> pairs.
\<close>

datatype pyobj = PyPayload payload | PyPair ExprType payload

text \<open>
  What the module takes from the surrounding expression system (none of it is in this
  module): \<^verbatim>\<open>var.fixed\<close>, calling a non-native object to evaluate it (\<^verbatim>\<open>obj()\<close>, which may
  raise), \<^verbatim>\<open>is_fixed(expr)\<close>, and \<^verbatim>\<open>apply_node_operation(node, args)\<close> of
  \<^verbatim>\<open>pyomo.repn.util\<close>.
\<close>

record env =
  fixed :: "nat \<Rightarrow> bool"
  evaluate :: "expr \<Rightarrow> error + numval"
  is_fixed :: "expr \<Rightarrow> bool"
  apply_node_operation :: "expr \<Rightarrow> pyobj list \<Rightarrow> error + numval"

text \<open>
  \<^verbatim>\<open>obj()\<close>: a native number is not callable (\<^verbatim>\<open>TypeError\<close>); every other object is
  evaluated by the expression system.
\<close>

fun call :: "env \<Rightarrow> expr \<Rightarrow> error + numval" where
  "call E (Native c) = Inl TypeError"
| "call E e = evaluate E e"

text \<open>
  The state shared by the walks of one driver: \<^verbatim>\<open>subexpression_cache\<close>, \<^verbatim>\<open>var_map\<close>
  (identity to variable; a variable is its identity here) and \<^verbatim>\<open>var_order\<close>.
\<close>

record visitor =
  subexpression_cache :: "(nat \<times> result) list"
  var_map :: "(nat \<times> nat) list"
  var_order :: "(nat \<times> nat) list"

section \<open>\<^verbatim>\<open>LinearRepn\<close> methods\<close>

fun merge_dict_plain :: "(nat \<times> numval) list \<Rightarrow> (nat \<times> numval) list \<Rightarrow> (nat \<times> numval) list" where
  "merge_dict_plain self_dict [] = self_dict"
| "merge_dict_plain self_dict ((vid, coef) # rest) =
     merge_dict_plain
       (case map_of self_dict vid of
          Some c \<Rightarrow> AList.update vid (num_add c coef) self_dict
        | None \<Rightarrow> AList.update vid coef self_dict) rest"

fun merge_dict_scaled ::
  "numval \<Rightarrow> (nat \<times> numval) list \<Rightarrow> (nat \<times> numval) list \<Rightarrow> (nat \<times> numval) list" where
  "merge_dict_scaled mult self_dict [] = self_dict"
| "merge_dict_scaled mult self_dict ((vid, coef) # rest) =
     merge_dict_scaled mult
       (case map_of self_dict vid of
          Some c \<Rightarrow> AList.update vid (num_add c (num_mul mult coef)) self_dict
        | None \<Rightarrow> AList.update vid (num_mul mult coef) self_dict) rest"

text \<open>\<^verbatim>\<open>_merge_dict(mult, self_dict, other_dict)\<close>\<close>

definition merge_dict ::
  "numval \<Rightarrow> (nat \<times> numval) list \<Rightarrow> (nat \<times> numval) list \<Rightarrow> (nat \<times> numval) list" where
  "merge_dict mult self_dict other_dict =
     (if mult = Val 1 then merge_dict_plain self_dict other_dict
      else merge_dict_scaled mult self_dict other_dict)"

text \<open>\<^verbatim>\<open>LinearRepn.walker_exitNode\<close>\<close>

definition walker_exitNode :: "LinearRepn \<Rightarrow> result" where
  "walker_exitNode self =
     (if nonlinear self \<noteq> None then (GENERAL, Repn self)
      else if linear self \<noteq> [] then (LINEAR, Repn self)
      else (CONSTANT, Bare (num_mul (multiplier self) (constant self))))"

text \<open>\<^verbatim>\<open>LinearRepn.duplicate\<close>: a new object with the four fields copied.\<close>

definition duplicate :: "LinearRepn \<Rightarrow> LinearRepn" where
  "duplicate self =
     \<lparr>multiplier = multiplier self, constant = constant self,
      linear = linear self, nonlinear = nonlinear self\<rparr>"

text \<open>
  The terms of the \<^verbatim>\<open>LinearExpression\<close> built by \<^verbatim>\<open>to_expression\<close>: one monomial for
  each entry with a true coefficient; \<^verbatim>\<open>visitor.var_map[vid]\<close> raises \<^verbatim>\<open>KeyError\<close> for an
  identity that is not registered.
\<close>

fun monomial_terms :: "visitor \<Rightarrow> (nat \<times> numval) list \<Rightarrow> error + expr list" where
  "monomial_terms v [] = Inr []"
| "monomial_terms v ((vid, coef) # rest) =
     (if truthy coef then
        (case map_of (var_map v) vid of
           None \<Rightarrow> Inl KeyError
         | Some x \<Rightarrow>
             (case monomial_terms v rest of
                Inl e \<Rightarrow> Inl e
              | Inr ts \<Rightarrow> Inr (MonomialTermExpression (Native coef) x # ts)))
      else monomial_terms v rest)"

text \<open>
  \<^verbatim>\<open>LinearRepn.to_expression\<close>. The operators of the expression system build the node they
  denote: \<^verbatim>\<open>a + b\<close> is \<open>Sum [a, b]\<close> and \<^verbatim>\<open>a * b\<close> is \<open>Product a b\<close>.
\<close>

definition repn_to_expression :: "visitor \<Rightarrow> LinearRepn \<Rightarrow> error + expr" where
  "repn_to_expression v self =
     (case (if linear self \<noteq> [] then
              (case monomial_terms v (linear self) of
                 Inl e \<Rightarrow> Inl e
               | Inr ts \<Rightarrow> Inr (SumExpression [LinearExpression ts, Native (constant self)]))
            else Inr (Native (constant self))) of
        Inl e \<Rightarrow> Inl e
      | Inr ans \<Rightarrow>
          (let ans1 = (case nonlinear self of None \<Rightarrow> ans | Some nl \<Rightarrow> SumExpression [ans, nl])
           in Inr (if multiplier self \<noteq> Val 1 then ProductExpression ans1 (Native (multiplier self))
                   else ans1)))"

text \<open>
  \<^verbatim>\<open>LinearRepn.append\<close>. A \<^verbatim>\<open>CONSTANT\<close> tag with a \<^verbatim>\<open>LinearRepn\<close> payload adds an object to
  a number, any other tag with a bare number reads \<^verbatim>\<open>.multiplier\<close> of a number: both
  raise.
\<close>

definition append_nonlinear :: "numval \<Rightarrow> expr \<Rightarrow> LinearRepn \<Rightarrow> LinearRepn" where
  "append_nonlinear mult onl self =
     (let nl = (if mult \<noteq> Val 1 then ProductExpression (Native mult) onl else onl)
      in (case nonlinear self of
            None \<Rightarrow> self\<lparr>nonlinear := Some nl\<rparr>
          | Some snl \<Rightarrow> self\<lparr>nonlinear := Some (SumExpression [snl, nl])\<rparr>))"

fun append :: "LinearRepn \<Rightarrow> result \<Rightarrow> error + LinearRepn" where
  "append self (CONSTANT, Bare c) = Inr (self\<lparr>constant := num_add (constant self) c\<rparr>)"
| "append self (CONSTANT, Repn other) = Inl TypeError"
| "append self (t, Bare c) = Inl AttributeError"
| "append self (t, Repn other) =
     (let mult = multiplier other;
          s1 = self\<lparr>constant := num_add (constant self) (num_mul mult (constant other))\<rparr>;
          s2 = (if linear other \<noteq> [] then s1\<lparr>linear := merge_dict mult (linear s1) (linear other)\<rparr>
                else s1)
      in Inr (case nonlinear other of
                None \<Rightarrow> s2
              | Some onl \<Rightarrow> append_nonlinear mult onl s2))"

text \<open>
  The table \<^verbatim>\<open>to_expression\<close>, indexed by the tag. \<^verbatim>\<open>_to_expression_CONST\<close> returns the
  payload as it is: a number is an expression; a \<^verbatim>\<open>LinearRepn\<close> is not, and the operator
  that the caller applies to it raises. The other two entries call the method of the
  payload, which a number does not have.
\<close>

fun to_expression :: "visitor \<Rightarrow> result \<Rightarrow> error + expr" where
  "to_expression v (CONSTANT, Bare c) = Inr (Native c)"
| "to_expression v (CONSTANT, Repn r) = Inl TypeError"
| "to_expression v (t, Repn r) = repn_to_expression v r"
| "to_expression v (t, Bare c) = Inl AttributeError"

section \<open>Exit-node handlers\<close>

text \<open>
  Each handler takes the classified operands as \<^verbatim>\<open>(tag, payload)\<close> pairs. A payload of the
  wrong kind for the operation performed on it raises, as it does in Python.
\<close>

definition handle_negation_constant :: "result \<Rightarrow> error + result" where
  "handle_negation_constant arg =
     (case snd arg of
        Bare c \<Rightarrow> Inr (CONSTANT, Bare (num_mul (Val (- 1)) c))
      | Repn r \<Rightarrow> Inl TypeError)"

definition handle_negation_ANY :: "result \<Rightarrow> error + result" where
  "handle_negation_ANY arg =
     (case snd arg of
        Repn r \<Rightarrow> Inr (fst arg, Repn (r\<lparr>multiplier := num_mul (multiplier r) (Val (- 1))\<rparr>))
      | Bare c \<Rightarrow> Inl AttributeError)"

text \<open>
  \<^verbatim>\<open>_handle_product_constant_constant\<close> returns the tag it unpacked last, that of
  \<^verbatim>\<open>arg2\<close>.
\<close>

definition handle_product_constant_constant :: "result \<Rightarrow> result \<Rightarrow> error + result" where
  "handle_product_constant_constant arg1 arg2 =
     (case (snd arg1, snd arg2) of
        (Bare a, Bare b) \<Rightarrow> Inr (fst arg2, Bare (num_mul a b))
      | _ \<Rightarrow> Inl TypeError)"

definition handle_product_constant_ANY :: "result \<Rightarrow> result \<Rightarrow> error + result" where
  "handle_product_constant_ANY arg1 arg2 =
     (case snd arg1 of
        Bare a \<Rightarrow>
          (if \<not> truthy a \<or> is_nan a then Inr (CONSTANT, Bare a)
           else (case snd arg2 of
                   Repn r \<Rightarrow> Inr (fst arg2, Repn (r\<lparr>multiplier := num_mul (multiplier r) a\<rparr>))
                 | Bare b \<Rightarrow> Inl AttributeError))
      | Repn q \<Rightarrow>
          (case snd arg2 of Repn r \<Rightarrow> Inl TypeError | Bare b \<Rightarrow> Inl AttributeError))"

definition handle_product_ANY_constant :: "result \<Rightarrow> result \<Rightarrow> error + result" where
  "handle_product_ANY_constant arg1 arg2 =
     (case snd arg2 of
        Bare a \<Rightarrow>
          (if \<not> truthy a \<or> is_nan a then Inr (CONSTANT, Bare a)
           else (case snd arg1 of
                   Repn r \<Rightarrow> Inr (fst arg1, Repn (r\<lparr>multiplier := num_mul (multiplier r) a\<rparr>))
                 | Bare b \<Rightarrow> Inl AttributeError))
      | Repn q \<Rightarrow>
          (case snd arg1 of Repn r \<Rightarrow> Inl TypeError | Bare b \<Rightarrow> Inl AttributeError))"

definition handle_product_nonlinear :: "visitor \<Rightarrow> result \<Rightarrow> result \<Rightarrow> error + result" where
  "handle_product_nonlinear v arg1 arg2 =
     (case to_expression v arg1 of
        Inl e \<Rightarrow> Inl e
      | Inr e1 \<Rightarrow>
          (case to_expression v arg2 of
             Inl e \<Rightarrow> Inl e
           | Inr e2 \<Rightarrow> Inr (GENERAL, Repn (Result\<lparr>nonlinear := Some (ProductExpression e1 e2)\<rparr>))))"

text \<open>\<^verbatim>\<open>_handle_division_constant_constant\<close> divides with Python's \<^verbatim>\<open>/\<close>.\<close>

definition handle_division_constant_constant :: "result \<Rightarrow> result \<Rightarrow> error + result" where
  "handle_division_constant_constant arg1 arg2 =
     (case (snd arg1, snd arg2) of
        (Bare a, Bare b) \<Rightarrow>
          (case num_div a b of Inl e \<Rightarrow> Inl e | Inr q \<Rightarrow> Inr (fst arg2, Bare q))
      | _ \<Rightarrow> Inl TypeError)"

definition handle_division_ANY_constant :: "result \<Rightarrow> result \<Rightarrow> error + result" where
  "handle_division_ANY_constant arg1 arg2 =
     (case snd arg2 of
        Bare a \<Rightarrow>
          (if is_nan a then Inr (CONSTANT, Bare a)
           else (case snd arg1 of
                   Repn r \<Rightarrow>
                     (case num_div (multiplier r) a of
                        Inl e \<Rightarrow> Inl e
                      | Inr m \<Rightarrow> Inr (fst arg1, Repn (r\<lparr>multiplier := m\<rparr>)))
                 | Bare b \<Rightarrow> Inl AttributeError))
      | Repn q \<Rightarrow>
          (case snd arg1 of Repn r \<Rightarrow> Inl TypeError | Bare b \<Rightarrow> Inl AttributeError))"

definition handle_division_nonlinear :: "visitor \<Rightarrow> result \<Rightarrow> result \<Rightarrow> error + result" where
  "handle_division_nonlinear v arg1 arg2 =
     (case to_expression v arg1 of
        Inl e \<Rightarrow> Inl e
      | Inr e1 \<Rightarrow>
          (case to_expression v arg2 of
             Inl e \<Rightarrow> Inl e
           | Inr e2 \<Rightarrow> Inr (GENERAL, Repn (Result\<lparr>nonlinear := Some (DivisionExpression e1 e2)\<rparr>))))"

text \<open>
  \<^verbatim>\<open>_handle_pow_constant_constant(visitor, node, *args)\<close> passes the operand pairs
  themselves to \<^verbatim>\<open>apply_node_operation\<close>.
\<close>

definition handle_pow_constant_constant :: "env \<Rightarrow> expr \<Rightarrow> result \<Rightarrow> result \<Rightarrow> error + result" where
  "handle_pow_constant_constant E node arg1 arg2 =
     (case apply_node_operation E node [PyPair (fst arg1) (snd arg1), PyPair (fst arg2) (snd arg2)] of
        Inl e \<Rightarrow> Inl e
      | Inr c \<Rightarrow> Inr (CONSTANT, Bare c))"

definition handle_pow_nonlinear :: "visitor \<Rightarrow> result \<Rightarrow> result \<Rightarrow> error + result" where
  "handle_pow_nonlinear v arg1 arg2 =
     (case to_expression v arg1 of
        Inl e \<Rightarrow> Inl e
      | Inr e1 \<Rightarrow>
          (case to_expression v arg2 of
             Inl e \<Rightarrow> Inl e
           | Inr e2 \<Rightarrow> Inr (GENERAL, Repn (Result\<lparr>nonlinear := Some (PowExpression e1 e2)\<rparr>))))"

definition handle_pow_ANY_constant :: "visitor \<Rightarrow> result \<Rightarrow> result \<Rightarrow> error + result" where
  "handle_pow_ANY_constant v arg1 arg2 =
     (if snd arg2 = Bare (Val 1) then Inr arg1 else handle_pow_nonlinear v arg1 arg2)"

definition handle_unary_constant :: "env \<Rightarrow> expr \<Rightarrow> result \<Rightarrow> error + result" where
  "handle_unary_constant E node arg =
     (case apply_node_operation E node [PyPayload (snd arg)] of
        Inl e \<Rightarrow> Inl e
      | Inr c \<Rightarrow> Inr (CONSTANT, Bare c))"

text \<open>\<^verbatim>\<open>node.create_node_with_local_data((e,))\<close> for the two unary node classes.\<close>

fun create_node_with_local_data :: "expr \<Rightarrow> expr \<Rightarrow> expr" where
  "create_node_with_local_data (UnaryFunctionExpression f a) e = UnaryFunctionExpression f e"
| "create_node_with_local_data (AbsExpression a) e = AbsExpression e"
| "create_node_with_local_data node e = node"

definition handle_unary_nonlinear :: "visitor \<Rightarrow> expr \<Rightarrow> result \<Rightarrow> error + result" where
  "handle_unary_nonlinear v node arg =
     (case to_expression v arg of
        Inl e \<Rightarrow> Inl e
      | Inr e1 \<Rightarrow>
          Inr (GENERAL, Repn (Result\<lparr>nonlinear := Some (create_node_with_local_data node e1)\<rparr>)))"

text \<open>The named-expression handlers write the cache; \<open>k\<close> is \<^verbatim>\<open>id(node)\<close>.\<close>

definition handle_named_constant :: "visitor \<Rightarrow> nat \<Rightarrow> result \<Rightarrow> error + (result \<times> visitor)" where
  "handle_named_constant v k arg1 =
     Inr (arg1, v\<lparr>subexpression_cache := AList.update k arg1 (subexpression_cache v)\<rparr>)"

definition handle_named_ANY :: "visitor \<Rightarrow> nat \<Rightarrow> result \<Rightarrow> error + (result \<times> visitor)" where
  "handle_named_ANY v k arg1 =
     (case snd arg1 of
        Repn r \<Rightarrow>
          Inr ((fst arg1, Repn (duplicate r)),
               v\<lparr>subexpression_cache := AList.update k arg1 (subexpression_cache v)\<rparr>)
      | Bare c \<Rightarrow> Inl AttributeError)"

definition handle_expr_if_nonlinear :: "visitor \<Rightarrow> result \<Rightarrow> result \<Rightarrow> result \<Rightarrow> error + result" where
  "handle_expr_if_nonlinear v arg1 arg2 arg3 =
     (case to_expression v arg1 of
        Inl e \<Rightarrow> Inl e
      | Inr e1 \<Rightarrow>
          (case to_expression v arg2 of
             Inl e \<Rightarrow> Inl e
           | Inr e2 \<Rightarrow>
               (case to_expression v arg3 of
                  Inl e \<Rightarrow> Inl e
                | Inr e3 \<Rightarrow> Inr (GENERAL, Repn (Result\<lparr>nonlinear := Some (Expr_ifExpression e1 e2 e3)\<rparr>)))))"

text \<open>
  \<^verbatim>\<open>_handle_expr_if_const\<close>: a \<^verbatim>\<open>LinearRepn\<close> object is true and equal to itself, so a
  payload of that kind selects \<^verbatim>\<open>arg2\<close>.
\<close>

definition handle_expr_if_const :: "visitor \<Rightarrow> result \<Rightarrow> result \<Rightarrow> result \<Rightarrow> error + result" where
  "handle_expr_if_const v arg1 arg2 arg3 =
     (if fst arg1 \<noteq> CONSTANT then handle_expr_if_nonlinear v arg1 arg2 arg3
      else (case snd arg1 of
              Bare t \<Rightarrow>
                (if truthy t then
                   (if is_nan t then handle_expr_if_nonlinear v arg1 arg2 arg3 else Inr arg2)
                 else Inr arg3)
            | Repn r \<Rightarrow> Inr arg2))"

section \<open>Before-child classifiers\<close>

text \<open>
  A classifier returns \<^verbatim>\<open>(True, None)\<close>, descend into the child, or
  \<^verbatim>\<open>(False, (tag, payload))\<close>; it may also register variables, so it returns the
  visitor state with its answer.
\<close>

datatype before = Descend | Done result

definition before_native :: "visitor \<Rightarrow> numval \<Rightarrow> error + (before \<times> visitor)" where
  "before_native v child = Inr (Done (CONSTANT, Bare child), v)"

text \<open>
  \<^verbatim>\<open>visitor.var_map[_id] = child; visitor.var_order[_id] = len(visitor.var_order)\<close>
\<close>

definition register_var :: "visitor \<Rightarrow> nat \<Rightarrow> visitor" where
  "register_var v i =
     v\<lparr>var_map := AList.update i i (var_map v),
       var_order := AList.update i (length (var_order v)) (var_order v)\<rparr>"

definition before_var :: "env \<Rightarrow> visitor \<Rightarrow> nat \<Rightarrow> error + (before \<times> visitor)" where
  "before_var E v i =
     (if map_of (var_map v) i = None then
        (if fixed E i then
           (case call E (Var i) of
              Inl e \<Rightarrow> Inl e
            | Inr c \<Rightarrow> Inr (Done (CONSTANT, Bare c), v))
         else Inr (Done (LINEAR, Repn (Result\<lparr>linear := AList.update i (Val 1) (linear Result)\<rparr>)),
                   register_var v i))
      else Inr (Done (LINEAR, Repn (Result\<lparr>linear := AList.update i (Val 1) (linear Result)\<rparr>)), v))"

text \<open>
  \<^verbatim>\<open>_before_npv\<close>: any exception of the evaluation means descend. (The test for a complex
  value has no counterpart: the model has no complex numbers.)
\<close>

definition before_npv :: "env \<Rightarrow> visitor \<Rightarrow> expr \<Rightarrow> error + (before \<times> visitor)" where
  "before_npv E v child =
     (case call E child of
        Inl e \<Rightarrow> Inr (Descend, v)
      | Inr tmp \<Rightarrow> Inr (Done (CONSTANT, Bare tmp), v))"

text \<open>
  The coefficient of a monomial: used as it is when native, evaluated otherwise
  (\<^verbatim>\<open>arg1 = arg1()\<close> inside \<^verbatim>\<open>try\<close>).
\<close>

fun coefficient :: "env \<Rightarrow> expr \<Rightarrow> error + numval" where
  "coefficient E (Native c) = Inr c"
| "coefficient E e = call E e"

definition before_monomial :: "env \<Rightarrow> visitor \<Rightarrow> expr \<Rightarrow> nat \<Rightarrow> error + (before \<times> visitor)" where
  "before_monomial E v arg1 i =
     (case coefficient E arg1 of
        Inl e \<Rightarrow> Inr (Descend, v)
      | Inr a \<Rightarrow>
          (if \<not> truthy a \<or> is_nan a then Inr (Done (CONSTANT, Bare a), v)
           else if map_of (var_map v) i = None then
             (if fixed E i then
                (case call E (Var i) of
                   Inl e \<Rightarrow> Inl e
                 | Inr x \<Rightarrow> Inr (Done (CONSTANT, Bare (num_mul a x)), v))
              else Inr (Done (LINEAR, Repn (Result\<lparr>linear := AList.update i a (linear Result)\<rparr>)),
                        register_var v i))
           else Inr (Done (LINEAR, Repn (Result\<lparr>linear := AList.update i a (linear Result)\<rparr>)), v)))"

text \<open>
  The local variables of the loop of \<^verbatim>\<open>_before_linear\<close>. \<^verbatim>\<open>var_map\<close> and \<^verbatim>\<open>var_order\<close> are
  the visitor's own dictionaries, so what the loop writes to them stays written when the
  loop gives up with \<^verbatim>\<open>return True, None\<close>.
\<close>

record linear_loop =
  ll_var_map :: "(nat \<times> nat) list"
  ll_var_order :: "(nat \<times> nat) list"
  ll_next_i :: nat
  ll_const :: numval
  ll_linear :: "(nat \<times> numval) list"

text \<open>
  One pass over \<^verbatim>\<open>child.args\<close>. The flag is \<open>False\<close> when the loop left by
  \<^verbatim>\<open>return True, None\<close>; an exception that no \<^verbatim>\<open>try\<close> covers (the value of a fixed
  variable) is an error.
\<close>

fun before_linear_loop :: "env \<Rightarrow> expr list \<Rightarrow> linear_loop \<Rightarrow> error + (bool \<times> linear_loop)" where
  "before_linear_loop E [] s = Inr (True, s)"
| "before_linear_loop E (MonomialTermExpression arg1 i # rest) s =
     (case coefficient E arg1 of
        Inl e \<Rightarrow> Inr (False, s)
      | Inr a \<Rightarrow>
          (if \<not> truthy a then before_linear_loop E rest s
           else if is_nan a then
             before_linear_loop E rest (s\<lparr>ll_const := num_add (ll_const s) a\<rparr>)
           else if map_of (ll_var_map s) i = None then
             (if fixed E i then
                (case call E (Var i) of
                   Inl e \<Rightarrow> Inl e
                 | Inr x \<Rightarrow>
                     before_linear_loop E rest
                       (s\<lparr>ll_const := num_add (ll_const s) (num_mul a x)\<rparr>))
              else
                before_linear_loop E rest
                  (s\<lparr>ll_var_map := AList.update i i (ll_var_map s),
                     ll_var_order := AList.update i (ll_next_i s) (ll_var_order s),
                     ll_next_i := ll_next_i s + 1,
                     ll_linear := AList.update i a (ll_linear s)\<rparr>))
           else
             (case map_of (ll_linear s) i of
                Some c \<Rightarrow>
                  before_linear_loop E rest
                    (s\<lparr>ll_linear := AList.update i (num_add c a) (ll_linear s)\<rparr>)
              | None \<Rightarrow>
                  before_linear_loop E rest
                    (s\<lparr>ll_linear := AList.update i a (ll_linear s)\<rparr>))))"
| "before_linear_loop E (Native c # rest) s =
     before_linear_loop E rest (s\<lparr>ll_const := num_add (ll_const s) c\<rparr>)"
| "before_linear_loop E (arg # rest) s =
     (case call E arg of
        Inl e \<Rightarrow> Inr (False, s)
      | Inr x \<Rightarrow> before_linear_loop E rest (s\<lparr>ll_const := num_add (ll_const s) x\<rparr>))"

definition before_linear :: "env \<Rightarrow> visitor \<Rightarrow> expr list \<Rightarrow> error + (before \<times> visitor)" where
  "before_linear E v args =
     (case before_linear_loop E args
             \<lparr>ll_var_map = var_map v, ll_var_order = var_order v,
              ll_next_i = length (var_order v), ll_const = Val 0,
              ll_linear = linear Result\<rparr> of
        Inl e \<Rightarrow> Inl e
      | Inr (finished, s) \<Rightarrow>
          (let v' = v\<lparr>var_map := ll_var_map s, var_order := ll_var_order s\<rparr>
           in if \<not> finished then Inr (Descend, v')
              else if ll_linear s \<noteq> [] then
                Inr (Done (LINEAR, Repn (Result\<lparr>linear := ll_linear s, constant := ll_const s\<rparr>)), v')
              else Inr (Done (CONSTANT, Bare (ll_const s)), v')))"

definition before_named_expression :: "visitor \<Rightarrow> nat \<Rightarrow> error + (before \<times> visitor)" where
  "before_named_expression v k =
     (case map_of (subexpression_cache v) k of
        Some (t, expr) \<Rightarrow>
          (if t = CONSTANT then Inr (Done (t, expr), v)
           else (case expr of
                   Repn r \<Rightarrow> Inr (Done (t, Repn (duplicate r)), v)
                 | Bare c \<Rightarrow> Inl AttributeError))
      | None \<Rightarrow> Inr (Descend, v))"

text \<open>
  \<^verbatim>\<open>_before_expr_if(visitor, child)\<close>. After the \<^verbatim>\<open>try\<close> the function builds the nested
  visitor from \<^verbatim>\<open>self.subexpression_cache, self.var_map, self.var_order\<close>; its parameter is
  called \<^verbatim>\<open>visitor\<close> and the module has no global \<^verbatim>\<open>self\<close>, so reading the name raises
  \<^verbatim>\<open>NameError\<close> before any branch is walked. The statements after it are never reached.
\<close>

definition before_expr_if ::
  "env \<Rightarrow> visitor \<Rightarrow> expr \<Rightarrow> expr \<Rightarrow> expr \<Rightarrow> error + (before \<times> visitor)" where
  "before_expr_if E v test t f =
     (if is_fixed E test then
        (case call E test of
           Inl e \<Rightarrow> Inr (Descend, v)
         | Inr tv \<Rightarrow> Inl NameError)
      else Inr (Descend, v))"

text \<open>
  \<^verbatim>\<open>_before_external(visitor, child)\<close>. Inside the \<^verbatim>\<open>try\<close>, \<^verbatim>\<open>ans.constant = test()\<close> reads the
  name \<^verbatim>\<open>test\<close>, which the function and the module do not define: the \<^verbatim>\<open>NameError\<close> is
  caught by the bare \<^verbatim>\<open>except\<close>, and the function goes on to the general answer.
\<close>

definition before_external :: "env \<Rightarrow> visitor \<Rightarrow> expr \<Rightarrow> expr list \<Rightarrow> error + (before \<times> visitor)" where
  "before_external E v child args =
     (let ans = Result;
          general = Inr (Done (GENERAL, Repn (ans\<lparr>nonlinear := Some child\<rparr>)), v)
      in if list_all (is_fixed E) args then
           (case (Inl NameError :: error + numval) of
              Inr c \<Rightarrow> Inr (Done (CONSTANT, Repn (ans\<lparr>constant := c\<rparr>)), v)
            | Inl e \<Rightarrow> general)
         else general)"

definition before_general_expression :: "visitor \<Rightarrow> error + (before \<times> visitor)" where
  "before_general_expression v = Inr (Descend, v)"

text \<open>
  Modelled from the spec: \<^verbatim>\<open>is_potentially_variable()\<close> and the choice of a node's class,
  which belong to the expression system (\<^verbatim>\<open>pyomo.core.expr\<close>) and are not in this module. A
  variable, a monomial term, a \<^verbatim>\<open>LinearExpression\<close> and a named expression are potentially
  variable; a number and a parameter are not; any other node is potentially variable when
  one of its arguments is. For the operators, sums, conditionals and external calls the
  expression system builds the node in the \<^verbatim>\<open>NPV_\<close> variant of its class (a class of its
  own) when it is not potentially variable.
\<close>

fun is_potentially_variable :: "expr \<Rightarrow> bool" where
  "is_potentially_variable (Native c) = False"
| "is_potentially_variable (Var i) = True"
| "is_potentially_variable (Param p) = False"
| "is_potentially_variable (NegationExpression a) = is_potentially_variable a"
| "is_potentially_variable (ProductExpression a b) =
     (is_potentially_variable a \<or> is_potentially_variable b)"
| "is_potentially_variable (DivisionExpression a b) =
     (is_potentially_variable a \<or> is_potentially_variable b)"
| "is_potentially_variable (PowExpression a b) =
     (is_potentially_variable a \<or> is_potentially_variable b)"
| "is_potentially_variable (UnaryFunctionExpression f a) = is_potentially_variable a"
| "is_potentially_variable (AbsExpression a) = is_potentially_variable a"
| "is_potentially_variable (ScalarExpression k body) = True"
| "is_potentially_variable (Expr_ifExpression test t f) =
     (is_potentially_variable test \<or> is_potentially_variable t \<or> is_potentially_variable f)"
| "is_potentially_variable (MonomialTermExpression arg1 i) = True"
| "is_potentially_variable (LinearExpression args) = True"
| "is_potentially_variable (SumExpression args) = list_ex is_potentially_variable args"
| "is_potentially_variable (ExternalFunctionExpression g args) =
     list_ex is_potentially_variable args"

text \<open>
  \<^verbatim>\<open>LinearRepnVisitor.beforeChild\<close>: the dispatch of \<^verbatim>\<open>_before_child_dispatcher\<close> on the class
  of the child. The classes the module registers itself come first. A class that is not
  registered goes through \<^verbatim>\<open>_register_new_before_child_dispatcher\<close>: a leaf gets
  \<^verbatim>\<open>_before_var\<close> or \<^verbatim>\<open>_before_npv\<close>, and a node of an \<^verbatim>\<open>NPV_\<close> class gets \<^verbatim>\<open>_before_npv\<close>
  (and the exit handlers of its base class, when that has any).
\<close>

fun beforeChild :: "env \<Rightarrow> visitor \<Rightarrow> expr \<Rightarrow> error + (before \<times> visitor)" where
  "beforeChild E v (Native c) = before_native v c"
| "beforeChild E v (Var i) = before_var E v i"
| "beforeChild E v (Param p) = before_npv E v (Param p)"
| "beforeChild E v (MonomialTermExpression arg1 i) = before_monomial E v arg1 i"
| "beforeChild E v (LinearExpression args) = before_linear E v args"
| "beforeChild E v (ScalarExpression k body) = before_named_expression v k"
| "beforeChild E v (Expr_ifExpression test t f) =
     (if is_potentially_variable (Expr_ifExpression test t f)
      then before_expr_if E v test t f
      else before_npv E v (Expr_ifExpression test t f))"
| "beforeChild E v (ExternalFunctionExpression g args) =
     (if is_potentially_variable (ExternalFunctionExpression g args)
      then before_external E v (ExternalFunctionExpression g args) args
      else before_npv E v (ExternalFunctionExpression g args))"
| "beforeChild E v child =
     (if is_potentially_variable child then before_general_expression v
      else before_npv E v child)"

section \<open>The traversal driver\<close>

text \<open>
  What \<^verbatim>\<open>enterNode\<close> hands to the walk as the node's data: a \<^verbatim>\<open>LinearRepn\<close> accumulator
  for a node whose class is \<^verbatim>\<open>SumExpression\<close> itself, an empty list for any other node
  (a sum of the \<^verbatim>\<open>NPV_\<close> class included).
\<close>

datatype data = Acc LinearRepn | Args "result list"

fun enterNode :: "expr \<Rightarrow> data" where
  "enterNode (SumExpression args) =
     (if is_potentially_variable (SumExpression args) then Acc Result else Args [])"
| "enterNode node = Args []"

text \<open>\<^verbatim>\<open>node.args\<close>; a leaf has none.\<close>

fun node_args :: "expr \<Rightarrow> expr list option" where
  "node_args (Native c) = None"
| "node_args (Var i) = None"
| "node_args (Param p) = None"
| "node_args (NegationExpression a) = Some [a]"
| "node_args (ProductExpression a b) = Some [a, b]"
| "node_args (DivisionExpression a b) = Some [a, b]"
| "node_args (PowExpression a b) = Some [a, b]"
| "node_args (UnaryFunctionExpression f a) = Some [a]"
| "node_args (AbsExpression a) = Some [a]"
| "node_args (ScalarExpression k body) = Some [body]"
| "node_args (Expr_ifExpression test t f) = Some [test, t, f]"
| "node_args (MonomialTermExpression arg1 i) = Some [arg1, Var i]"
| "node_args (LinearExpression args) = Some args"
| "node_args (SumExpression args) = Some args"
| "node_args (ExternalFunctionExpression g args) = Some args"

text \<open>
  The table \<^verbatim>\<open>exit_node_dispatcher\<close>, keyed by the class of the node and the tags of its
  operands. Every combination of tags has an entry for the classes of
  \<^verbatim>\<open>_exit_node_handlers\<close>; any other key raises \<^verbatim>\<open>KeyError\<close>.
\<close>

definition keep_visitor :: "visitor \<Rightarrow> error + result \<Rightarrow> error + (result \<times> visitor)" where
  "keep_visitor v r = (case r of Inl e \<Rightarrow> Inl e | Inr x \<Rightarrow> Inr (x, v))"

fun exit_node_dispatcher ::
  "env \<Rightarrow> visitor \<Rightarrow> expr \<Rightarrow> result list \<Rightarrow> error + (result \<times> visitor)" where
  "exit_node_dispatcher E v (NegationExpression a) [x] =
     keep_visitor v
       (if fst x = CONSTANT then handle_negation_constant x else handle_negation_ANY x)"
| "exit_node_dispatcher E v (ProductExpression a b) [x, y] =
     keep_visitor v
       (if fst x = CONSTANT then
          (if fst y = CONSTANT then handle_product_constant_constant x y
           else handle_product_constant_ANY x y)
        else if fst y = CONSTANT then handle_product_ANY_constant x y
        else handle_product_nonlinear v x y)"
| "exit_node_dispatcher E v (DivisionExpression a b) [x, y] =
     keep_visitor v
       (if fst y = CONSTANT then
          (if fst x = CONSTANT then handle_division_constant_constant x y
           else handle_division_ANY_constant x y)
        else handle_division_nonlinear v x y)"
| "exit_node_dispatcher E v (PowExpression a b) [x, y] =
     keep_visitor v
       (if fst y = CONSTANT then
          (if fst x = CONSTANT then handle_pow_constant_constant E (PowExpression a b) x y
           else handle_pow_ANY_constant v x y)
        else handle_pow_nonlinear v x y)"
| "exit_node_dispatcher E v (UnaryFunctionExpression f a) [x] =
     keep_visitor v
       (if fst x = CONSTANT then handle_unary_constant E (UnaryFunctionExpression f a) x
        else handle_unary_nonlinear v (UnaryFunctionExpression f a) x)"
| "exit_node_dispatcher E v (AbsExpression a) [x] =
     keep_visitor v
       (if fst x = CONSTANT then handle_unary_constant E (AbsExpression a) x
        else handle_unary_nonlinear v (AbsExpression a) x)"
| "exit_node_dispatcher E v (ScalarExpression k body) [x] =
     (if fst x = CONSTANT then handle_named_constant v k x else handle_named_ANY v k x)"
| "exit_node_dispatcher E v (Expr_ifExpression test t f) [x, y, z] =
     keep_visitor v
       (if fst x = CONSTANT then handle_expr_if_const v x y z
        else handle_expr_if_nonlinear v x y z)"
| "exit_node_dispatcher E v node xs = Inl KeyError"

text \<open>\<^verbatim>\<open>LinearRepnVisitor.exitNode\<close>\<close>

fun exitNode :: "env \<Rightarrow> visitor \<Rightarrow> expr \<Rightarrow> data \<Rightarrow> error + (result \<times> visitor)" where
  "exitNode E v node (Acc r) = Inr (walker_exitNode r, v)"
| "exitNode E v node (Args xs) = exit_node_dispatcher E v node xs"

text \<open>
  Modelled from the spec: the generic post-order walk of \<^verbatim>\<open>StreamBasedExpressionVisitor\<close>
  (\<^verbatim>\<open>pyomo.core.expr.visitor\<close>), which this module subclasses and does not contain. For
  each child in turn the walk asks \<open>beforeChild\<close>; it descends into the child when told
  to, and hands the child's result to the node's data with \<^verbatim>\<open>data.append(result)\<close>: the
  \<^verbatim>\<open>append\<close> of a list, or \<^verbatim>\<open>LinearRepn.append\<close> for the accumulator of a sum. When the
  children are done it calls \<open>exitNode\<close>.
\<close>

fun acceptChildResult :: "data \<Rightarrow> result \<Rightarrow> error + data" where
  "acceptChildResult (Acc r) x = (case append r x of Inl e \<Rightarrow> Inl e | Inr r' \<Rightarrow> Inr (Acc r'))"
| "acceptChildResult (Args xs) x = Inr (Args (xs @ [x]))"

fun esize :: "expr \<Rightarrow> nat" where
  "esize (Native c) = 1"
| "esize (Var i) = 1"
| "esize (Param p) = 1"
| "esize (NegationExpression a) = 1 + esize a"
| "esize (ProductExpression a b) = 1 + esize a + esize b"
| "esize (DivisionExpression a b) = 1 + esize a + esize b"
| "esize (PowExpression a b) = 1 + esize a + esize b"
| "esize (UnaryFunctionExpression f a) = 1 + esize a"
| "esize (AbsExpression a) = 1 + esize a"
| "esize (ScalarExpression k body) = 1 + esize body"
| "esize (Expr_ifExpression test t f) = 1 + esize test + esize t + esize f"
| "esize (MonomialTermExpression arg1 i) = 2 + esize arg1"
| "esize (LinearExpression args) = 1 + sum_list (map esize args)"
| "esize (SumExpression args) = 1 + sum_list (map esize args)"
| "esize (ExternalFunctionExpression g args) = 1 + sum_list (map esize args)"

function walk_node :: "env \<Rightarrow> visitor \<Rightarrow> expr \<Rightarrow> error + (result \<times> visitor)"
  and walk_children :: "env \<Rightarrow> visitor \<Rightarrow> expr list \<Rightarrow> data \<Rightarrow> error + (data \<times> visitor)" where
  "walk_node E v node =
     (case node_args node of
        None \<Rightarrow> Inl AttributeError
      | Some cs \<Rightarrow>
          (case walk_children E v cs (enterNode node) of
             Inl e \<Rightarrow> Inl e
           | Inr (d, v') \<Rightarrow> exitNode E v' node d))"
| "walk_children E v [] d = Inr (d, v)"
| "walk_children E v (c # cs) d =
     (case beforeChild E v c of
        Inl e \<Rightarrow> Inl e
      | Inr (Done x, v1) \<Rightarrow>
          (case acceptChildResult d x of
             Inl e \<Rightarrow> Inl e
           | Inr d' \<Rightarrow> walk_children E v1 cs d')
      | Inr (Descend, v1) \<Rightarrow>
          (case walk_node E v1 c of
             Inl e \<Rightarrow> Inl e
           | Inr (x, v2) \<Rightarrow>
               (case acceptChildResult d x of
                  Inl e \<Rightarrow> Inl e
                | Inr d' \<Rightarrow> walk_children E v2 cs d')))"
  by pat_completeness auto
termination
proof -
  have pos: "0 < esize e" for e
    by (cases e) simp_all
  have smaller: "sum_list (map esize cs) < esize node" if "node_args node = Some cs" for node cs
    using that by (cases node) auto
  show ?thesis
    by (relation "measure (\<lambda>x. case x of
            Inl (E, v, node) \<Rightarrow> 2 * esize node
          | Inr (E, v, cs, d) \<Rightarrow> 2 * sum_list (map esize cs) + 1)")
       (auto dest: smaller simp: pos)
qed

text \<open>
  \<^verbatim>\<open>LinearRepnVisitor.finalizeResult\<close>. The loop of the second branch walks the items of
  \<^verbatim>\<open>linear\<close>, rewrites the true coefficients in place and collects the keys of the others.
\<close>

fun finalize_scale ::
  "numval \<Rightarrow> (nat \<times> numval) list \<Rightarrow> (nat \<times> numval) list \<Rightarrow> nat list
     \<Rightarrow> (nat \<times> numval) list \<times> nat list" where
  "finalize_scale mult [] lin zeros = (lin, zeros)"
| "finalize_scale mult ((vid, coef) # items) lin zeros =
     (if truthy coef then finalize_scale mult items (AList.update vid (num_mul coef mult) lin) zeros
      else finalize_scale mult items lin (zeros @ [vid]))"

definition delete_keys :: "nat list \<Rightarrow> (nat \<times> numval) list \<Rightarrow> (nat \<times> numval) list" where
  "delete_keys ks lin = fold AList.delete ks lin"

definition finalizeResult :: "result \<Rightarrow> error + LinearRepn" where
  "finalizeResult res =
     (case snd res of
        Repn ans \<Rightarrow>
          (let mult = multiplier ans in
           if mult = Val 1 then
             (let zeros = filter (\<lambda>item. \<not> truthy (snd item)) (linear ans)
              in Inr (ans\<lparr>linear := delete_keys (map fst zeros) (linear ans)\<rparr>))
           else
             (case finalize_scale mult (linear ans) (linear ans) [] of
                (lin, zeros) \<Rightarrow>
                  Inr (ans\<lparr>linear := delete_keys zeros lin,
                           nonlinear := (case nonlinear ans of
                                           None \<Rightarrow> None
                                         | Some nl \<Rightarrow> Some (ProductExpression nl (Native mult)))\<rparr>)))
      | Bare c \<Rightarrow>
          (if fst res = CONSTANT then Inr (Result\<lparr>constant := c\<rparr>) else Inl AssertionError))"

text \<open>
  \<^verbatim>\<open>walk_expression\<close>: \<^verbatim>\<open>initializeWalker\<close> classifies the root with \<open>beforeChild\<close> and
  finalizes at once when no descent is needed; otherwise the root is walked and its result
  finalized.
\<close>

definition walk_expression :: "env \<Rightarrow> visitor \<Rightarrow> expr \<Rightarrow> error + (LinearRepn \<times> visitor)" where
  "walk_expression E v expr =
     (case beforeChild E v expr of
        Inl e \<Rightarrow> Inl e
      | Inr (Done x, v1) \<Rightarrow>
          (case finalizeResult x of Inl e \<Rightarrow> Inl e | Inr r \<Rightarrow> Inr (r, v1))
      | Inr (Descend, v1) \<Rightarrow>
          (case walk_node E v1 expr of
             Inl e \<Rightarrow> Inl e
           | Inr (x, v2) \<Rightarrow>
               (case finalizeResult x of Inl e \<Rightarrow> Inl e | Inr r \<Rightarrow> Inr (r, v2))))"

section \<open>Objects and aliasing\<close>

text \<open>
  The definitions above pass a \<^verbatim>\<open>LinearRepn\<close> by value. In the program it is an object,
  its \<^verbatim>\<open>linear\<close> field refers to a dictionary object, and handlers change both in place
  (\<^verbatim>\<open>arg[1].multiplier *= -1\<close>, \<^verbatim>\<open>linear[vid] = coef * mult\<close>, \<^verbatim>\<open>del linear[vid]\<close>). For the
  cache of named expressions this matters, so the part of the module that writes and reads
  the cache is modelled a second time over an explicit store: objects and dictionaries at
  addresses, a payload that is an object being a reference. Numbers and expressions are
  immutable and stay values.
\<close>

record repn_object =
  o_multiplier :: numval
  o_constant :: numval
  o_linear :: nat
  o_nonlinear :: "expr option"

datatype ref_payload = RBare numval | Ref nat

type_synonym ref_result = "ExprType \<times> ref_payload"

record store =
  objects :: "repn_object list"
  dicts :: "(nat \<times> numval) list list"
  cache :: "(nat \<times> ref_result) list"

text \<open>
  In a well-formed store every object refers to a dictionary that exists, and no two
  objects refer to the same dictionary.
\<close>

definition wf_store :: "store \<Rightarrow> bool" where
  "wf_store st =
     (list_all (\<lambda>ob. o_linear ob < length (dicts st)) (objects st)
      \<and> distinct (map o_linear (objects st)))"

text \<open>The \<^verbatim>\<open>LinearRepn\<close> value that the object at an address holds.\<close>

definition repn_at :: "store \<Rightarrow> nat \<Rightarrow> LinearRepn" where
  "repn_at st a =
     (let ob = objects st ! a
      in \<lparr>multiplier = o_multiplier ob, constant = o_constant ob,
          linear = dicts st ! o_linear ob, nonlinear = o_nonlinear ob\<rparr>)"

text \<open>
  \<^verbatim>\<open>LinearRepn.duplicate\<close> on the store: \<^verbatim>\<open>__new__\<close> allocates the object, \<^verbatim>\<open>dict(self.linear)\<close>
  allocates a dictionary with the same items; the other three fields are copied.
\<close>

definition duplicate_ref :: "store \<Rightarrow> nat \<Rightarrow> error + (nat \<times> store)" where
  "duplicate_ref st a =
     (if a < length (objects st) \<and> o_linear (objects st ! a) < length (dicts st) then
        (let self = objects st ! a;
             ans = \<lparr>o_multiplier = o_multiplier self, o_constant = o_constant self,
                    o_linear = length (dicts st), o_nonlinear = o_nonlinear self\<rparr>
         in Inr (length (objects st),
                 st\<lparr>objects := objects st @ [ans],
                    dicts := dicts st @ [dicts st ! o_linear self]\<rparr>))
      else Inl AttributeError)"

text \<open>\<^verbatim>\<open>_handle_named_ANY\<close> on the store: the cache gets the pair it was given.\<close>

definition handle_named_ANY_ref :: "store \<Rightarrow> nat \<Rightarrow> ref_result \<Rightarrow> error + (ref_result \<times> store)" where
  "handle_named_ANY_ref st k arg1 =
     (let st1 = st\<lparr>cache := AList.update k arg1 (cache st)\<rparr>
      in (case snd arg1 of
            Ref a \<Rightarrow>
              (case duplicate_ref st1 a of
                 Inl e \<Rightarrow> Inl e
               | Inr (b, st2) \<Rightarrow> Inr ((fst arg1, Ref b), st2))
          | RBare c \<Rightarrow> Inl AttributeError))"

datatype ref_before = RDescend | RDone ref_result

text \<open>\<^verbatim>\<open>_before_named_expression\<close> on the store.\<close>

definition before_named_expression_ref :: "store \<Rightarrow> nat \<Rightarrow> error + (ref_before \<times> store)" where
  "before_named_expression_ref st k =
     (case map_of (cache st) k of
        Some (t, expr) \<Rightarrow>
          (if t = CONSTANT then Inr (RDone (t, expr), st)
           else (case expr of
                   Ref a \<Rightarrow>
                     (case duplicate_ref st a of
                        Inl e \<Rightarrow> Inl e
                      | Inr (b, st') \<Rightarrow> Inr (RDone (t, Ref b), st'))
                 | RBare c \<Rightarrow> Inl AttributeError))
      | None \<Rightarrow> Inr (RDescend, st))"

text \<open>
  The in-place changes the module makes to a \<^verbatim>\<open>LinearRepn\<close> it holds: assigning the
  multiplier, assigning an entry of \<^verbatim>\<open>linear\<close>, deleting an entry of \<^verbatim>\<open>linear\<close>.
\<close>

datatype mutation = SetMultiplier numval | SetLinear nat numval | DelLinear nat

fun mutate :: "mutation \<Rightarrow> nat \<Rightarrow> store \<Rightarrow> store" where
  "mutate (SetMultiplier m) b st =
     st\<lparr>objects := (objects st)[b := (objects st ! b)\<lparr>o_multiplier := m\<rparr>]\<rparr>"
| "mutate (SetLinear vid c) b st =
     st\<lparr>dicts := (dicts st)[o_linear (objects st ! b) :=
                     AList.update vid c (dicts st ! o_linear (objects st ! b))]\<rparr>"
| "mutate (DelLinear vid) b st =
     st\<lparr>dicts := (dicts st)[o_linear (objects st ! b) :=
                     AList.delete vid (dicts st ! o_linear (objects st ! b))]\<rparr>"

text \<open>
  A store with one \<^verbatim>\<open>LinearRepn\<close>, \<open>x + 2\<close>, and an empty cache; and the store after that
  object has been committed to the cache for the named expression 5.
\<close>

definition example_store :: store where
  "example_store =
     \<lparr>objects = [\<lparr>o_multiplier = Val 1, o_constant = Val 2, o_linear = 0, o_nonlinear = None\<rparr>],
      dicts = [[(0, Val 1)]],
      cache = []\<rparr>"

definition committed_store :: store where
  "committed_store =
     \<lparr>objects = [\<lparr>o_multiplier = Val 1, o_constant = Val 2, o_linear = 0, o_nonlinear = None\<rparr>,
                 \<lparr>o_multiplier = Val 1, o_constant = Val 2, o_linear = 1, o_nonlinear = None\<rparr>],
      dicts = [[(0, Val 1)], [(0, Val 1)]],
      cache = [(5, (LINEAR, Ref 0))]\<rparr>"

section \<open>The scaling factor of a component\<close>

text \<open>
  \<^verbatim>\<open>pyomo/core/plugins/transform/scaling.py\<close>. A suffix maps keys, a component (by
  identity) or \<^verbatim>\<open>None\<close>, to arbitrary Python values: \<^verbatim>\<open>None\<close>, a number, a string, or an
  object of any other kind.
\<close>

datatype pyvalue = PyNone | PyNumber numval | PyString string | PyOther nat

datatype suffix_key = ComponentKey nat | NoneKey

type_synonym suffix = "(suffix_key \<times> pyvalue) list"

text \<open>
  The three passes of \<^verbatim>\<open>_suffix_finder\<close> over \<^verbatim>\<open>suffixes\<close>, the suffixes of that name on the
  blocks from the component's parent block up to the root, in that order.
\<close>

fun first_with :: "suffix_key \<Rightarrow> suffix list \<Rightarrow> pyvalue option" where
  "first_with key [] = None"
| "first_with key (s # ss) =
     (case map_of s key of Some x \<Rightarrow> Some x | None \<Rightarrow> first_with key ss)"

definition suffix_finder :: "suffix list \<Rightarrow> nat \<Rightarrow> nat \<Rightarrow> pyvalue" where
  "suffix_finder suffixes component_data parent_comp =
     (case first_with (ComponentKey component_data) (rev suffixes) of
        Some x \<Rightarrow> x
      | None \<Rightarrow>
          (case (if parent_comp \<noteq> component_data
                 then first_with (ComponentKey parent_comp) (rev suffixes) else None) of
             Some x \<Rightarrow> x
           | None \<Rightarrow>
               (case first_with NoneKey suffixes of Some x \<Rightarrow> x | None \<Rightarrow> PyNone)))"

text \<open>
  Python's \<^verbatim>\<open>float(x)\<close>: a number converts; a string converts when it spells a number
  (\<open>parse\<close>, the grammar of float literals, is a parameter) and raises \<^verbatim>\<open>ValueError\<close>
  otherwise; \<^verbatim>\<open>None\<close> and objects without a conversion raise \<^verbatim>\<open>TypeError\<close>.
\<close>

datatype float_outcome = Converted numval | RaisesValueError | RaisesTypeError

fun py_float :: "(string \<Rightarrow> numval option) \<Rightarrow> pyvalue \<Rightarrow> float_outcome" where
  "py_float parse (PyNumber x) = Converted x"
| "py_float parse (PyString s) = (case parse s of Some x \<Rightarrow> Converted x | None \<Rightarrow> RaisesValueError)"
| "py_float parse PyNone = RaisesTypeError"
| "py_float parse (PyOther ob) = RaisesTypeError"

text \<open>
  The errors that leave \<^verbatim>\<open>_get_float_scaling_factor\<close>: the \<^verbatim>\<open>ValueError\<close> it raises itself,
  whose message names the value and the component, and the \<^verbatim>\<open>TypeError\<close> of \<^verbatim>\<open>float\<close>,
  which \<^verbatim>\<open>except ValueError\<close> does not catch.
\<close>

datatype scaling_error = CannotConvert pyvalue nat | FloatTypeError

definition get_float_scaling_factor ::
  "(string \<Rightarrow> numval option) \<Rightarrow> suffix list \<Rightarrow> nat \<Rightarrow> nat \<Rightarrow> scaling_error + numval" where
  "get_float_scaling_factor parse suffixes component_data parent_comp =
     (let scaling_factor = suffix_finder suffixes component_data parent_comp
      in if scaling_factor = PyNone then Inr (Val 1)
         else (case py_float parse scaling_factor of
                 Converted x \<Rightarrow> Inr x
               | RaisesValueError \<Rightarrow> Inl (CannotConvert scaling_factor component_data)
               | RaisesTypeError \<Rightarrow> Inl FloatTypeError))"

section \<open>The tag and the payload\<close>

text \<open>
  The invariant of the data model, for a classification \<^verbatim>\<open>(tag, payload)\<close>: the tag is
  CONSTANT exactly when the linear map is empty and there is no nonlinear part, and the
  payload is then a bare number; LINEAR exactly when the linear map is not empty and there
  is no nonlinear part; GENERAL exactly when there is a nonlinear part. A bare number has
  neither a linear map nor a nonlinear part.
\<close>

fun payload_linear :: "payload \<Rightarrow> (nat \<times> numval) list" where
  "payload_linear (Bare c) = []"
| "payload_linear (Repn r) = linear r"

fun payload_nonlinear :: "payload \<Rightarrow> expr option" where
  "payload_nonlinear (Bare c) = None"
| "payload_nonlinear (Repn r) = nonlinear r"

fun is_bare :: "payload \<Rightarrow> bool" where
  "is_bare (Bare c) = True"
| "is_bare (Repn r) = False"

definition well_tagged :: "result \<Rightarrow> bool" where
  "well_tagged x =
     (((fst x = CONSTANT) = (payload_linear (snd x) = [] \<and> payload_nonlinear (snd x) = None))
      \<and> ((fst x = CONSTANT) = is_bare (snd x))
      \<and> ((fst x = LINEAR) = (payload_linear (snd x) \<noteq> [] \<and> payload_nonlinear (snd x) = None))
      \<and> ((fst x = GENERAL) = (payload_nonlinear (snd x) \<noteq> None)))"

text \<open>Every entry of the cache satisfies the invariant; so does every collected operand.\<close>

definition cache_ok :: "visitor \<Rightarrow> bool" where
  "cache_ok v = list_all (\<lambda>entry. well_tagged (snd entry)) (subexpression_cache v)"

fun data_ok :: "data \<Rightarrow> bool" where
  "data_ok (Acc r) = True"
| "data_ok (Args xs) = list_all well_tagged xs"

section \<open>The pending multiplier\<close>

text \<open>
  The multiplier of a \<^verbatim>\<open>LinearRepn\<close> is a number other than zero; so it is in every entry
  of the cache, in the accumulator of a sum, and in every collected operand.
\<close>

definition multiplier_ok :: "LinearRepn \<Rightarrow> bool" where
  "multiplier_ok r = (case multiplier r of Val m \<Rightarrow> m \<noteq> 0 | NaN \<Rightarrow> False)"

fun result_multiplier_ok :: "result \<Rightarrow> bool" where
  "result_multiplier_ok (t, Bare c) = True"
| "result_multiplier_ok (t, Repn r) = multiplier_ok r"

definition cache_multiplier_ok :: "visitor \<Rightarrow> bool" where
  "cache_multiplier_ok v =
     list_all (\<lambda>entry. result_multiplier_ok (snd entry)) (subexpression_cache v)"


section \<open>A concrete model to run the walk on\<close>

text \<open>
  An environment with the variables named by \<open>fx\<close> fixed at the value 2 (the others
  have no value), the mutable parameter \<open>p\<close> holding the number \<open>p\<close>, arithmetic evaluated
  as Python does, the external function \<open>g\<close> of one argument multiplying its argument by
  \<open>g\<close>, no evaluation of powers, unary functions and conditionals, and no node operations;
  and the visitor of a freshly constructed driver.
\<close>

fun example_value :: "(nat \<Rightarrow> bool) \<Rightarrow> expr \<Rightarrow> error + numval" where
  "example_value fx (Native c) = Inr c"
| "example_value fx (Var i) = (if fx i then Inr (Val 2) else Inl ValueError)"
| "example_value fx (Param p) = Inr (Val (of_nat p))"
| "example_value fx (NegationExpression a) =
     (case example_value fx a of Inl e \<Rightarrow> Inl e | Inr x \<Rightarrow> Inr (num_mul (Val (- 1)) x))"
| "example_value fx (ProductExpression a b) =
     (case example_value fx a of
        Inl e \<Rightarrow> Inl e
      | Inr x \<Rightarrow> (case example_value fx b of Inl e \<Rightarrow> Inl e | Inr y \<Rightarrow> Inr (num_mul x y)))"
| "example_value fx (DivisionExpression a b) =
     (case example_value fx a of
        Inl e \<Rightarrow> Inl e
      | Inr x \<Rightarrow> (case example_value fx b of Inl e \<Rightarrow> Inl e | Inr y \<Rightarrow> num_div x y))"
| "example_value fx (ScalarExpression k body) = example_value fx body"
| "example_value fx (ExternalFunctionExpression g [a]) =
     (case example_value fx a of Inl e \<Rightarrow> Inl e | Inr x \<Rightarrow> Inr (num_mul (Val (of_nat g)) x))"
| "example_value fx e = Inl EvaluationError"

fun example_is_fixed :: "(nat \<Rightarrow> bool) \<Rightarrow> expr \<Rightarrow> bool" where
  "example_is_fixed fx (Native c) = True"
| "example_is_fixed fx (Var i) = fx i"
| "example_is_fixed fx (Param p) = True"
| "example_is_fixed fx (NegationExpression a) = example_is_fixed fx a"
| "example_is_fixed fx (ProductExpression a b) = (example_is_fixed fx a \<and> example_is_fixed fx b)"
| "example_is_fixed fx (DivisionExpression a b) = (example_is_fixed fx a \<and> example_is_fixed fx b)"
| "example_is_fixed fx (ScalarExpression k body) = example_is_fixed fx body"
| "example_is_fixed fx e = False"

definition example_env :: "(nat \<Rightarrow> bool) \<Rightarrow> env" where
  "example_env fx =
     \<lparr>fixed = fx,
      evaluate = example_value fx,
      is_fixed = example_is_fixed fx,
      apply_node_operation = (\<lambda>node args. Inl EvaluationError)\<rparr>"

definition no_fixed :: "nat \<Rightarrow> bool" where
  "no_fixed i = False"

definition all_fixed :: "nat \<Rightarrow> bool" where
  "all_fixed i = True"

text \<open>The visitor after the variable 0 has been registered.\<close>

definition visitor_with_x :: visitor where
  "visitor_with_x = \<lparr>subexpression_cache = [], var_map = [(0, 0)], var_order = [(0, 0)]\<rparr>"

definition new_visitor :: visitor where
  "new_visitor = \<lparr>subexpression_cache = [], var_map = [], var_order = []\<rparr>"

section \<open>Finalization and the pending multiplier\<close>

text \<open>
  Claim C1: finalization distributes the pending multiplier into the constant and into
  each linear coefficient (and into the nonlinear residual), so that the result returned
  by the walk has its multiplier absorbed. The second branch of \<^verbatim>\<open>finalizeResult\<close> scales
  the coefficients and the residual only: on \<^verbatim>\<open>-(x + 1)\<close> the walk returns the coefficient
  \<open>-1\<close> for \<open>x\<close> next to the constant \<open>1\<close>, not \<open>-1\<close>, and the multiplier is still \<open>-1\<close>.
\<close>

theorem finalizeResult_keeps_constant_and_multiplier:
  "finalizeResult
     (LINEAR, Repn \<lparr>multiplier = Val (- 1), constant = Val 1, linear = [(0, Val 1)],
                     nonlinear = None\<rparr>) =
   Inr \<lparr>multiplier = Val (- 1), constant = Val 1, linear = [(0, Val (- 1))], nonlinear = None\<rparr>
   \<and> walk_expression (example_env no_fixed) new_visitor
       (NegationExpression (SumExpression [Var 0, Native (Val 1)])) =
     Inr (\<lparr>multiplier = Val (- 1), constant = Val 1, linear = [(0, Val (- 1))], nonlinear = None\<rparr>,
          \<lparr>subexpression_cache = [], var_map = [(0, 0)], var_order = [(0, 0)]\<rparr>)"
  by code_simp

section \<open>Conditionals\<close>

text \<open>
  Claim C2: a conditional whose test evaluates to a definite value is classified by
  walking the selected branch only, with the same registry and cache, so that
  \<^verbatim>\<open>Expr_if(True, x, y)\<close> registers \<open>x\<close> and not \<open>y\<close>. In the code, a test that is a
  parameter with the value 1 makes \<^verbatim>\<open>_before_expr_if\<close> raise \<^verbatim>\<open>NameError\<close>; a test that is
  the native constant 1 is not callable, the classifier descends, and the walk registers
  both \<open>x\<close> (variable 1) and \<open>y\<close> (variable 2).
\<close>

theorem before_expr_if_fixed_test:
  "before_expr_if (example_env no_fixed) new_visitor (Param 1) (Var 1) (Var 2) = Inl NameError
   \<and> walk_expression (example_env no_fixed) new_visitor
       (Expr_ifExpression (Param 1) (Var 1) (Var 2)) = Inl NameError
   \<and> before_expr_if (example_env no_fixed) new_visitor (Native (Val 1)) (Var 1) (Var 2) =
       Inr (Descend, new_visitor)
   \<and> walk_expression (example_env no_fixed) new_visitor
       (Expr_ifExpression (Native (Val 1)) (Var 1) (Var 2)) =
     Inr (\<lparr>multiplier = Val 1, constant = Val 0, linear = [(1, Val 1)], nonlinear = None\<rparr>,
          \<lparr>subexpression_cache = [], var_map = [(1, 1), (2, 2)],
            var_order = [(1, 0), (2, 1)]\<rparr>)"
  by code_simp

section \<open>External functions\<close>

text \<open>
  Claim C3: an external-function call is never descended into; it classifies CONSTANT
  with the value of the call when every argument is fixed, and GENERAL with the call as
  the nonlinear payload otherwise. The call \<^verbatim>\<open>f(x)\<close> with \<open>x\<close> a fixed variable is potentially
  variable, so it is a node of the class \<^verbatim>\<open>ExternalFunctionExpression\<close> and goes to
  \<^verbatim>\<open>_before_external\<close>. Its only argument is fixed and the call evaluates (to 14), but it
  classifies GENERAL.
\<close>

theorem before_external_fixed_arguments:
  "is_potentially_variable (ExternalFunctionExpression 7 [Var 0])
   \<and> list_all (is_fixed (example_env all_fixed)) [Var 0]
   \<and> call (example_env all_fixed) (ExternalFunctionExpression 7 [Var 0]) = Inr (Val 14)
   \<and> beforeChild (example_env all_fixed) new_visitor (ExternalFunctionExpression 7 [Var 0]) =
     Inr (Done (GENERAL,
            Repn \<lparr>multiplier = Val 1, constant = Val 0, linear = [],
                  nonlinear = Some (ExternalFunctionExpression 7 [Var 0])\<rparr>),
          new_visitor)
   \<and> walk_expression (example_env all_fixed) new_visitor (ExternalFunctionExpression 7 [Var 0]) =
     Inr (\<lparr>multiplier = Val 1, constant = Val 0, linear = [],
            nonlinear = Some (ExternalFunctionExpression 7 [Var 0])\<rparr>,
          new_visitor)"
  by code_simp

text \<open>
  The same holds for every call that reaches \<^verbatim>\<open>_before_external\<close>, in every environment.
  A call without a potentially variable argument does not reach it: it is of the \<^verbatim>\<open>NPV_\<close>
  class, and \<^verbatim>\<open>_before_npv\<close> classifies it CONSTANT with its value.
\<close>

lemma before_external_always_general:
  "before_external E v child args =
     Inr (Done (GENERAL, Repn (Result\<lparr>nonlinear := Some child\<rparr>)), v)"
  by (simp add: before_external_def Let_def)

lemma npv_external_call_is_constant:
  "\<not> is_potentially_variable (ExternalFunctionExpression g args) \<Longrightarrow>
   call E (ExternalFunctionExpression g args) = Inr x \<Longrightarrow>
     beforeChild E v (ExternalFunctionExpression g args) = Inr (Done (CONSTANT, Bare x), v)"
  by (simp add: before_npv_def)

section \<open>Products with a constant operand\<close>

text \<open>
  The rule of \<^verbatim>\<open>_handle_product_constant_ANY\<close>: a constant that is zero or NaN is the
  answer, whatever the other operand holds; any other constant scales the pending
  multiplier of the other operand.
\<close>

lemma handle_product_constant_ANY_zero_or_nan:
  "\<not> truthy a \<or> is_nan a \<Longrightarrow>
     handle_product_constant_ANY (CONSTANT, Bare a) arg2 = Inr (CONSTANT, Bare a)"
  by (simp add: handle_product_constant_ANY_def)

lemma handle_product_constant_ANY_scales:
  "truthy a \<Longrightarrow> \<not> is_nan a \<Longrightarrow>
     handle_product_constant_ANY (CONSTANT, Bare a) (t, Repn r) =
       Inr (t, Repn (r\<lparr>multiplier := num_mul (multiplier r) a\<rparr>))"
  by (simp add: handle_product_constant_ANY_def)

lemma nan_times_variable:
  "walk_expression (example_env no_fixed) new_visitor
     (ProductExpression (Native NaN) (Var 0)) =
   Inr (\<lparr>multiplier = Val 1, constant = NaN, linear = [], nonlinear = None\<rparr>,
        \<lparr>subexpression_cache = [], var_map = [(0, 0)], var_order = [(0, 0)]\<rparr>)"
  by code_simp

text \<open>
  Claim C4: a product with a constant operand that is zero or NaN classifies CONSTANT
  with that value, any other constant scales the pending multiplier; in particular
  \<^verbatim>\<open>0 * (1/0)\<close> and \<^verbatim>\<open>nan * x\<close> classify to CONSTANT NaN, and classification returns this
  value rather than raising. With parameters \<open>p0 = 0\<close> and \<open>p1 = 1\<close>, the walk of
  \<^verbatim>\<open>p0 * (p1 / p0)\<close> raises \<^verbatim>\<open>ZeroDivisionError\<close>: the operands of a product are classified
  before its handler runs, and \<^verbatim>\<open>_handle_division_constant_constant\<close> divides by zero.
\<close>

theorem zero_times_division_by_zero:
  "handle_division_constant_constant (CONSTANT, Bare (Val 1)) (CONSTANT, Bare (Val 0)) =
     Inl ZeroDivisionError
   \<and> walk_expression (example_env no_fixed) new_visitor
       (ProductExpression (Param 0) (DivisionExpression (Param 1) (Param 0))) =
     Inl ZeroDivisionError"
  by code_simp

section \<open>Reconstruction and a second classification\<close>

text \<open>
  Claim C7: reconstructing the result of a classification and classifying the
  reconstructed expression gives an equivalent result: the same constant, the same linear
  map, the same presence of a nonlinear residual. For \<^verbatim>\<open>-x\<close> the first classification
  has the coefficient \<open>-1\<close> for \<open>x\<close> and still carries the multiplier \<open>-1\<close>; the
  reconstruction multiplies by it once more, and the second classification has the
  coefficient \<open>1\<close>.
\<close>

theorem reclassification_changes_coefficient:
  "walk_expression (example_env no_fixed) new_visitor (NegationExpression (Var 0)) =
     Inr (\<lparr>multiplier = Val (- 1), constant = Val 0, linear = [(0, Val (- 1))], nonlinear = None\<rparr>,
          \<lparr>subexpression_cache = [], var_map = [(0, 0)], var_order = [(0, 0)]\<rparr>)
   \<and> repn_to_expression
        \<lparr>subexpression_cache = [], var_map = [(0, 0)], var_order = [(0, 0)]\<rparr>
        \<lparr>multiplier = Val (- 1), constant = Val 0, linear = [(0, Val (- 1))], nonlinear = None\<rparr> =
     Inr (ProductExpression
            (SumExpression [LinearExpression [MonomialTermExpression (Native (Val (- 1))) 0],
                            Native (Val 0)])
            (Native (Val (- 1))))
   \<and> walk_expression (example_env no_fixed)
        \<lparr>subexpression_cache = [], var_map = [(0, 0)], var_order = [(0, 0)]\<rparr>
        (ProductExpression
           (SumExpression [LinearExpression [MonomialTermExpression (Native (Val (- 1))) 0],
                           Native (Val 0)])
           (Native (Val (- 1)))) =
     Inr (\<lparr>multiplier = Val (- 1), constant = Val 0, linear = [(0, Val 1)], nonlinear = None\<rparr>,
          \<lparr>subexpression_cache = [], var_map = [(0, 0)], var_order = [(0, 0)]\<rparr>)"
  by code_simp

section \<open>Pruning of zero coefficients\<close>











text \<open>
  The pending multiplier starts at 1 and is only ever multiplied by \<open>-1\<close>, multiplied by a
  constant that is neither zero nor NaN, or divided by one: every classification that
  carries a \<^verbatim>\<open>LinearRepn\<close> has a multiplier that is a number other than zero.
\<close>

lemma multiplier_ok_Result [simp]: "multiplier_ok Result"
  by (simp add: multiplier_ok_def Result_def)

lemma multiplier_ok_fields [simp]:
  "multiplier_ok (r\<lparr>constant := c\<rparr>) = multiplier_ok r"
  "multiplier_ok (r\<lparr>linear := l\<rparr>) = multiplier_ok r"
  "multiplier_ok (r\<lparr>nonlinear := n\<rparr>) = multiplier_ok r"
  "multiplier_ok (duplicate r) = multiplier_ok r"
  by (simp_all add: multiplier_ok_def duplicate_def)













lemma cache_multiplier_ok_fields [simp]:
  "cache_multiplier_ok (register_var v i) = cache_multiplier_ok v"
  "cache_multiplier_ok (v\<lparr>var_map := vm, var_order := vo\<rparr>) = cache_multiplier_ok v"
  by (simp_all add: cache_multiplier_ok_def register_var_def)











lemma finalizeResult_zero_multiplier:
  "finalizeResult
     (LINEAR, Repn \<lparr>multiplier = Val 0, constant = Val 0, linear = [(0, Val 3)], nonlinear = None\<rparr>) =
   Inr \<lparr>multiplier = Val 0, constant = Val 0, linear = [(0, Val 0)], nonlinear = None\<rparr>"
  by code_simp




section \<open>Variables that are already registered\<close>








section \<open>The tag agrees with the payload\<close>

lemma well_tagged_Bare [simp]: "well_tagged (t, Bare c) = (t = CONSTANT)"
  by (cases t) (auto simp: well_tagged_def)

lemma well_tagged_Repn [simp]:
  "well_tagged (t, Repn r) =
     (if nonlinear r \<noteq> None then t = GENERAL else linear r \<noteq> [] \<and> t = LINEAR)"
  by (cases t) (auto simp: well_tagged_def)

lemma well_tagged_walker_exitNode: "well_tagged (walker_exitNode r)"
  by (simp add: walker_exitNode_def)

lemma well_tagged_negation:
  "well_tagged x \<Longrightarrow>
     (handle_negation_constant x = Inr y \<longrightarrow> well_tagged y)
     \<and> (handle_negation_ANY x = Inr y \<longrightarrow> well_tagged y)"
  by (cases x; cases "snd x")
     (auto simp: handle_negation_constant_def handle_negation_ANY_def split: if_splits)

lemma well_tagged_product:
  "well_tagged x \<Longrightarrow> well_tagged y \<Longrightarrow> fst y = CONSTANT \<Longrightarrow>
     handle_product_constant_constant x y = Inr z \<Longrightarrow> well_tagged z"
  "well_tagged x \<Longrightarrow> well_tagged y \<Longrightarrow>
     handle_product_constant_ANY x y = Inr z \<Longrightarrow> well_tagged z"
  "well_tagged x \<Longrightarrow> well_tagged y \<Longrightarrow>
     handle_product_ANY_constant x y = Inr z \<Longrightarrow> well_tagged z"
  "handle_product_nonlinear v x y = Inr z \<Longrightarrow> well_tagged z"
  by (cases x; cases y; cases "snd x"; cases "snd y";
      auto simp: handle_product_constant_constant_def handle_product_constant_ANY_def
        handle_product_ANY_constant_def handle_product_nonlinear_def Result_def
      split: if_splits sum.splits)+

lemma well_tagged_division:
  "well_tagged x \<Longrightarrow> well_tagged y \<Longrightarrow> fst y = CONSTANT \<Longrightarrow>
     handle_division_constant_constant x y = Inr z \<Longrightarrow> well_tagged z"
  "well_tagged x \<Longrightarrow> well_tagged y \<Longrightarrow>
     handle_division_ANY_constant x y = Inr z \<Longrightarrow> well_tagged z"
  "handle_division_nonlinear v x y = Inr z \<Longrightarrow> well_tagged z"
  by (cases x; cases y; cases "snd x"; cases "snd y";
      auto simp: handle_division_constant_constant_def handle_division_ANY_constant_def
        handle_division_nonlinear_def Result_def
      split: if_splits sum.splits)+

lemma well_tagged_pow:
  "handle_pow_constant_constant E node x y = Inr z \<Longrightarrow> well_tagged z"
  "well_tagged x \<Longrightarrow> handle_pow_ANY_constant v x y = Inr z \<Longrightarrow> well_tagged z"
  "handle_pow_nonlinear v x y = Inr z \<Longrightarrow> well_tagged z"
  by (auto simp: handle_pow_constant_constant_def handle_pow_ANY_constant_def
        handle_pow_nonlinear_def Result_def
      split: if_splits sum.splits)

lemma well_tagged_unary:
  "handle_unary_constant E node x = Inr z \<Longrightarrow> well_tagged z"
  "handle_unary_nonlinear v node x = Inr z \<Longrightarrow> well_tagged z"
  by (auto simp: handle_unary_constant_def handle_unary_nonlinear_def Result_def
      split: if_splits sum.splits)

lemma cache_ok_update:
  "cache_ok v \<Longrightarrow> well_tagged x \<Longrightarrow>
     cache_ok (v\<lparr>subexpression_cache := AList.update k x (subexpression_cache v)\<rparr>)"
proof -
  have "list_all (\<lambda>entry. well_tagged (snd entry)) (AList.update k x al)"
    if "list_all (\<lambda>entry. well_tagged (snd entry)) al" "well_tagged x" for al
    using that by (induction al) auto
  then show "cache_ok v \<Longrightarrow> well_tagged x \<Longrightarrow>
     cache_ok (v\<lparr>subexpression_cache := AList.update k x (subexpression_cache v)\<rparr>)"
    by (simp add: cache_ok_def)
qed

lemma well_tagged_named:
  "cache_ok v \<Longrightarrow> well_tagged x \<Longrightarrow> handle_named_constant v k x = Inr (z, v') \<Longrightarrow>
     well_tagged z \<and> cache_ok v'"
  "cache_ok v \<Longrightarrow> well_tagged x \<Longrightarrow> handle_named_ANY v k x = Inr (z, v') \<Longrightarrow>
     well_tagged z \<and> cache_ok v'"
  by (cases x; cases "snd x";
      auto simp: handle_named_constant_def handle_named_ANY_def duplicate_def
           intro: cache_ok_update split: if_splits)+

lemma well_tagged_expr_if:
  "handle_expr_if_nonlinear v x y z = Inr w \<Longrightarrow> well_tagged w"
  "well_tagged y \<Longrightarrow> well_tagged z \<Longrightarrow> handle_expr_if_const v x y z = Inr w \<Longrightarrow> well_tagged w"
  by (auto simp: handle_expr_if_nonlinear_def handle_expr_if_const_def Result_def
      split: if_splits sum.splits payload.splits)


lemma cache_ok_fields [simp]:
  "cache_ok (register_var v i) = cache_ok v"
  "cache_ok (v\<lparr>var_map := vm, var_order := vo\<rparr>) = cache_ok v"
  by (simp_all add: cache_ok_def register_var_def)

lemma cache_ok_lookup:
  "cache_ok v \<Longrightarrow> map_of (subexpression_cache v) k = Some x \<Longrightarrow> well_tagged x"
  by (auto simp: cache_ok_def list_all_iff dest!: map_of_SomeD)

lemma well_tagged_beforeChild:
  assumes "cache_ok v" and "beforeChild E v c = Inr (b, v')"
  shows "cache_ok v' \<and> (\<forall>x. b = Done x \<longrightarrow> well_tagged x)"
proof (cases c)
  case (ScalarExpression k body)
  with assms show ?thesis
    using cache_ok_lookup[OF assms(1), of k]
    by (auto simp: before_named_expression_def duplicate_def
             split: option.splits if_splits payload.splits)
next
  case (LinearExpression args)
  with assms show ?thesis
    by (auto simp: before_linear_def Let_def Result_def split: sum.splits if_splits prod.splits)
qed (use assms in \<open>auto simp: before_native_def before_var_def before_npv_def before_monomial_def
        before_expr_if_def before_external_def before_general_expression_def Result_def Let_def
      split: sum.splits if_splits\<close>)

lemma well_tagged_dispatcher:
  assumes "cache_ok v" and "list_all well_tagged xs"
    and "exit_node_dispatcher E v node xs = Inr (y, v')"
  shows "well_tagged y \<and> cache_ok v'"
  using assms
  by (cases "(E, v, node, xs)" rule: exit_node_dispatcher.cases)
     (auto simp: keep_visitor_def split: sum.splits if_splits
           dest: well_tagged_negation[THEN conjunct1, rule_format]
                 well_tagged_negation[THEN conjunct2, rule_format]
                 well_tagged_product well_tagged_division well_tagged_pow well_tagged_unary
                 well_tagged_named well_tagged_expr_if)


lemma data_ok_accept:
  "data_ok d \<Longrightarrow> well_tagged x \<Longrightarrow> acceptChildResult d x = Inr d' \<Longrightarrow> data_ok d'"
  by (cases d) (auto split: sum.splits)

lemma well_tagged_exitNode:
  "cache_ok v \<Longrightarrow> data_ok d \<Longrightarrow> exitNode E v node d = Inr (y, v') \<Longrightarrow>
     well_tagged y \<and> cache_ok v'"
  by (cases d) (auto simp: well_tagged_walker_exitNode dest: well_tagged_dispatcher)

lemma data_ok_enterNode: "data_ok (enterNode node)"
  by (cases node) simp_all

lemma well_tagged_walk_aux:
  "\<forall>y v'. cache_ok v \<longrightarrow> walk_node E v node = Inr (y, v') \<longrightarrow> well_tagged y \<and> cache_ok v'"
  "\<forall>d' v''. cache_ok v \<longrightarrow> data_ok d \<longrightarrow> walk_children E v cs d = Inr (d', v'') \<longrightarrow>
     data_ok d' \<and> cache_ok v''"
proof (induct E v node and E v cs d rule: walk_node_walk_children.induct)
  case (1 E v node)
  show ?case
  proof (intro allI impI)
    fix y v'
    assume ok: "cache_ok v" and run: "walk_node E v node = Inr (y, v')"
    from run obtain cs d v1 where
      args: "node_args node = Some cs"
      and ch: "walk_children E v cs (enterNode node) = Inr (d, v1)"
      and ex: "exitNode E v1 node d = Inr (y, v')"
      by (auto split: option.splits sum.splits)
    from 1[OF args] ok data_ok_enterNode ch have "data_ok d \<and> cache_ok v1"
      by blast
    with ex show "well_tagged y \<and> cache_ok v'"
      by (auto dest: well_tagged_exitNode)
  qed
next
  case (2 E v d)
  then show ?case by simp
next
  case (3 E v c cs d)
  show ?case
  proof (intro allI impI)
    fix d' v''
    assume ok: "cache_ok v" and dok: "data_ok d"
      and run: "walk_children E v (c # cs) d = Inr (d', v'')"
    from run obtain b v1 where bc: "beforeChild E v c = Inr (b, v1)"
      by (auto split: sum.splits)
    from well_tagged_beforeChild[OF ok bc]
    have ok1: "cache_ok v1" and tagged: "\<And>x. b = Done x \<Longrightarrow> well_tagged x" by auto
    show "data_ok d' \<and> cache_ok v''"
    proof (cases b)
      case (Done x)
      with run bc obtain d1 where
        acc: "acceptChildResult d x = Inr d1" and rest: "walk_children E v1 cs d1 = Inr (d', v'')"
        by (auto split: sum.splits)
      from data_ok_accept[OF dok tagged[OF Done] acc] have d1: "data_ok d1" .
      from "3"(3)[OF bc refl Done acc] ok1 d1 rest show ?thesis
        by blast
    next
      case Descend
      with run bc obtain x v2 d1 where
        wn: "walk_node E v1 c = Inr (x, v2)"
        and acc: "acceptChildResult d x = Inr d1"
        and rest: "walk_children E v2 cs d1 = Inr (d', v'')"
        by (auto split: sum.splits)
      from "3"(1)[OF bc refl Descend] ok1 wn have wx: "well_tagged x" and ok2: "cache_ok v2"
        by blast+
      from data_ok_accept[OF dok wx acc] have d1: "data_ok d1" .
      from "3"(2)[OF bc refl Descend wn refl acc] ok2 d1 rest show ?thesis
        by blast
    qed
  qed
qed

text \<open>
  Claim C6: every \<^verbatim>\<open>(tag, payload)\<close> pair produced by a classification step satisfies the
  invariant: CONSTANT iff the linear map is empty and there is no nonlinear part (the
  payload being a bare number), LINEAR iff the linear map is not empty and there is no
  nonlinear part, GENERAL iff there is a nonlinear part. The steps are the before-child
  classifiers (all reached through \<open>beforeChild\<close>) and the exit-node rules (all reached
  through \<open>exitNode\<close>); the operands an exit-node rule receives, and the entries of the
  cache, are themselves results of earlier steps. The same then holds for the result of
  walking any node.
\<close>

theorem classification_is_well_tagged:
  assumes "cache_ok v"
  shows "(\<forall>x v'. beforeChild E v c = Inr (Done x, v') \<longrightarrow> well_tagged x \<and> cache_ok v')
       \<and> (\<forall>y v'. data_ok d \<and> exitNode E v node d = Inr (y, v') \<longrightarrow>
             well_tagged y \<and> cache_ok v')
       \<and> (\<forall>y v'. walk_node E v node = Inr (y, v') \<longrightarrow> well_tagged y \<and> cache_ok v')"
  using assms well_tagged_beforeChild[OF assms, of E c]
    well_tagged_exitNode[OF assms, of d E node]
    well_tagged_walk_aux(1)[of v E node]
  by blast

theorem classification_is_well_tagged_witness:
  "cache_ok new_visitor
   \<and> beforeChild (example_env no_fixed) new_visitor (Var 0) =
       Inr (Done (LINEAR, Repn \<lparr>multiplier = Val 1, constant = Val 0,
                                linear = [(0, Val 1)], nonlinear = None\<rparr>),
            visitor_with_x)
   \<and> well_tagged (LINEAR, Repn \<lparr>multiplier = Val 1, constant = Val 0,
                                 linear = [(0, Val 1)], nonlinear = None\<rparr>)
   \<and> data_ok (Args [(CONSTANT, Bare (Val 2)), (CONSTANT, Bare (Val 3))])
   \<and> exitNode (example_env no_fixed) new_visitor
         (ProductExpression (Param 2) (Param 3))
         (Args [(CONSTANT, Bare (Val 2)), (CONSTANT, Bare (Val 3))]) =
       Inr ((CONSTANT, Bare (Val 6)), new_visitor)
   \<and> well_tagged (CONSTANT, Bare (Val 6))
   \<and> walk_node (example_env no_fixed) new_visitor
         (ProductExpression (SumExpression [Var 0, Native (Val 1)]) (Var 0)) =
       Inr ((GENERAL,
             Repn \<lparr>multiplier = Val 1, constant = Val 0, linear = [],
                   nonlinear = Some (ProductExpression
                     (SumExpression [LinearExpression [MonomialTermExpression (Native (Val 1)) 0],
                                     Native (Val 1)])
                     (SumExpression [LinearExpression [MonomialTermExpression (Native (Val 1)) 0],
                                     Native (Val 0)]))\<rparr>),
            visitor_with_x)
   \<and> well_tagged (GENERAL,
             Repn \<lparr>multiplier = Val 1, constant = Val 0, linear = [],
                   nonlinear = Some (ProductExpression
                     (SumExpression [LinearExpression [MonomialTermExpression (Native (Val 1)) 0],
                                     Native (Val 1)])
                     (SumExpression [LinearExpression [MonomialTermExpression (Native (Val 1)) 0],
                                     Native (Val 0)]))\<rparr>)"
proof -
  have ok: "cache_ok new_visitor"
    by (simp add: cache_ok_def new_visitor_def)
  have bc: "beforeChild (example_env no_fixed) new_visitor (Var 0) =
       Inr (Done (LINEAR, Repn \<lparr>multiplier = Val 1, constant = Val 0,
                                linear = [(0, Val 1)], nonlinear = None\<rparr>),
            visitor_with_x)"
    by code_simp
  have dk: "data_ok (Args [(CONSTANT, Bare (Val 2)), (CONSTANT, Bare (Val 3))])"
    by simp
  have ex: "exitNode (example_env no_fixed) new_visitor
         (ProductExpression (Param 2) (Param 3))
         (Args [(CONSTANT, Bare (Val 2)), (CONSTANT, Bare (Val 3))]) =
       Inr ((CONSTANT, Bare (Val 6)), new_visitor)"
    by code_simp
  have wn: "walk_node (example_env no_fixed) new_visitor
         (ProductExpression (SumExpression [Var 0, Native (Val 1)]) (Var 0)) =
       Inr ((GENERAL,
             Repn \<lparr>multiplier = Val 1, constant = Val 0, linear = [],
                   nonlinear = Some (ProductExpression
                     (SumExpression [LinearExpression [MonomialTermExpression (Native (Val 1)) 0],
                                     Native (Val 1)])
                     (SumExpression [LinearExpression [MonomialTermExpression (Native (Val 1)) 0],
                                     Native (Val 0)]))\<rparr>),
            visitor_with_x)"
    by code_simp
  from classification_is_well_tagged
         [OF ok, of "example_env no_fixed" "Var 0"
            "Args [(CONSTANT, Bare (Val 2)), (CONSTANT, Bare (Val 3))]"
            "ProductExpression (Param 2) (Param 3)"]
       classification_is_well_tagged
         [OF ok, of "example_env no_fixed" "Var 0"
            "Args [(CONSTANT, Bare (Val 2)), (CONSTANT, Bare (Val 3))]"
            "ProductExpression (SumExpression [Var 0, Native (Val 1)]) (Var 0)"]
       ok bc dk ex wn
  show ?thesis by simp
qed

section \<open>The cache of named expressions holds no shared object\<close>

text \<open>
  \<^verbatim>\<open>duplicate\<close> returns an address that was not in use, holding the same value; no object
  that existed before is changed.
\<close>

lemma duplicate_ref_fresh:
  assumes wf: "wf_store st" and a: "a < length (objects st)"
  shows "\<exists>st'. duplicate_ref st a = Inr (length (objects st), st')
           \<and> cache st' = cache st
           \<and> wf_store st'
           \<and> length (objects st') = Suc (length (objects st))
           \<and> repn_at st' (length (objects st)) = repn_at st a
           \<and> (\<forall>c. c < length (objects st) \<longrightarrow> repn_at st' c = repn_at st c)"
proof -
  from wf a have la: "o_linear (objects st ! a) < length (dicts st)"
    by (auto simp: wf_store_def list_all_length)
  from wf have bound: "\<And>c. c < length (objects st) \<Longrightarrow> o_linear (objects st ! c) < length (dicts st)"
    by (auto simp: wf_store_def list_all_length)
  from wf have "length (dicts st) \<notin> o_linear ` set (objects st)"
    by (auto simp: wf_store_def list_all_iff)
  with wf a la bound show ?thesis
    by (auto simp: duplicate_ref_def Let_def wf_store_def repn_at_def nth_append duplicate_def
                   list_all_iff less_Suc_eq)
qed

text \<open>
  A change made in place to one object of a well-formed store leaves every other object
  and the cache as they were.
\<close>

lemma mutate_frame:
  assumes wf: "wf_store st" and b: "b < length (objects st)"
  shows "cache (mutate m b st) = cache st
       \<and> wf_store (mutate m b st)
       \<and> length (objects (mutate m b st)) = length (objects st)
       \<and> (\<forall>c. c < length (objects st) \<and> c \<noteq> b \<longrightarrow> repn_at (mutate m b st) c = repn_at st c)"
proof -
  from wf have bound: "\<And>c. c < length (objects st) \<Longrightarrow> o_linear (objects st ! c) < length (dicts st)"
    by (auto simp: wf_store_def list_all_length)
  from wf have inj: "\<And>c. c < length (objects st) \<Longrightarrow> c \<noteq> b \<Longrightarrow>
      o_linear (objects st ! b) \<noteq> o_linear (objects st ! c)"
    using b by (auto simp: wf_store_def distinct_conv_nth)
  have keep: "wf_store (mutate m b st)"
  proof (cases m)
    case (SetMultiplier x)
    have "map o_linear ((objects st)[b := (objects st ! b)\<lparr>o_multiplier := x\<rparr>]) = map o_linear (objects st)"
      using b by (simp add: map_update list_update_same_conv)
    with wf SetMultiplier b show ?thesis
      by (auto simp: wf_store_def list_all_length nth_list_update)
  qed (use wf in \<open>auto simp: wf_store_def\<close>)
  show ?thesis
    using keep bound inj b by (cases m) (auto simp: repn_at_def Let_def nth_list_update)
qed

text \<open>Both together, for the address that \<^verbatim>\<open>duplicate\<close> returns.\<close>

lemma duplicate_ref_independent:
  assumes wf: "wf_store st" and a: "a < length (objects st)"
  shows "\<exists>b st'. duplicate_ref st a = Inr (b, st')
           \<and> cache st' = cache st
           \<and> b = length (objects st) \<and> wf_store st' \<and> b < length (objects st')
           \<and> repn_at st' b = repn_at st a
           \<and> (\<forall>c. c < length (objects st) \<longrightarrow> repn_at st' c = repn_at st c)
           \<and> (\<forall>m c. c < length (objects st') \<and> c \<noteq> b \<longrightarrow>
                 repn_at (mutate m b st') c = repn_at st' c)
           \<and> (\<forall>m. cache (mutate m b st') = cache st' \<and> wf_store (mutate m b st'))"
proof -
  from duplicate_ref_fresh[OF wf a] obtain st' where
    d: "duplicate_ref st a = Inr (length (objects st), st')"
    and c: "cache st' = cache st" and w: "wf_store st'"
    and l: "length (objects st') = Suc (length (objects st))"
    and r: "repn_at st' (length (objects st)) = repn_at st a"
    and o: "\<forall>c. c < length (objects st) \<longrightarrow> repn_at st' c = repn_at st c"
    by blast
  from l have b: "length (objects st) < length (objects st')" by simp
  from mutate_frame[OF w b] d c w b r o show ?thesis by blast
qed

text \<open>
  Claim C8: when a named expression classifies LINEAR or GENERAL, the pair committed to
  the cache is never changed afterwards: at the first commit (\<^verbatim>\<open>_handle_named_ANY\<close>) and
  on every later hit (\<^verbatim>\<open>_before_named_expression\<close>) the caller receives an independent
  duplicate, so that a change made in place to the multiplier or to the linear map of the
  caller's copy leaves the cached entry and every other copy unchanged. On the store: the
  cache keeps the reference it was given; the caller's reference \<open>b\<close> is a new address
  with the same value; and any of the in-place changes at \<open>b\<close> leaves the value at every
  other address, the cached one included, and the cache itself as they were.
\<close>

theorem cached_payload_is_never_aliased:
  assumes "wf_store st" and "a < length (objects st)"
  shows "(\<exists>b st'. handle_named_ANY_ref st k (t, Ref a) = Inr ((t, Ref b), st')
            \<and> map_of (cache st') k = Some (t, Ref a)
            \<and> b = length (objects st) \<and> wf_store st' \<and> b < length (objects st')
            \<and> repn_at st' b = repn_at st a
            \<and> (\<forall>c. c < length (objects st) \<longrightarrow> repn_at st' c = repn_at st c)
            \<and> (\<forall>m c. c < length (objects st') \<and> c \<noteq> b \<longrightarrow>
                  repn_at (mutate m b st') c = repn_at st' c)
            \<and> (\<forall>m. cache (mutate m b st') = cache st' \<and> wf_store (mutate m b st')))
       \<and> (t \<noteq> CONSTANT \<and> map_of (cache st) k = Some (t, Ref a) \<longrightarrow>
            (\<exists>b st'. before_named_expression_ref st k = Inr (RDone (t, Ref b), st')
               \<and> cache st' = cache st
               \<and> b = length (objects st) \<and> wf_store st' \<and> b < length (objects st')
               \<and> repn_at st' b = repn_at st a
               \<and> (\<forall>c. c < length (objects st) \<longrightarrow> repn_at st' c = repn_at st c)
               \<and> (\<forall>m c. c < length (objects st') \<and> c \<noteq> b \<longrightarrow>
                     repn_at (mutate m b st') c = repn_at st' c)
               \<and> (\<forall>m. cache (mutate m b st') = cache st' \<and> wf_store (mutate m b st'))))"
proof (intro conjI impI)
  let ?st1 = "st\<lparr>cache := AList.update k (t, Ref a) (cache st)\<rparr>"
  have wf1: "wf_store ?st1" and a1: "a < length (objects ?st1)"
    using assms by (simp_all add: wf_store_def)
  have same: "repn_at ?st1 c = repn_at st c" for c
    by (simp add: repn_at_def)
  from duplicate_ref_independent[OF wf1 a1] obtain b st' where
    "duplicate_ref ?st1 a = Inr (b, st')" "cache st' = cache ?st1"
    "b = length (objects st)" "wf_store st'" "b < length (objects st')"
    "repn_at st' b = repn_at st a"
    "\<forall>c. c < length (objects st) \<longrightarrow> repn_at st' c = repn_at st c"
    "\<forall>m c. c < length (objects st') \<and> c \<noteq> b \<longrightarrow> repn_at (mutate m b st') c = repn_at st' c"
    "\<forall>m. cache (mutate m b st') = cache st' \<and> wf_store (mutate m b st')"
    unfolding same by auto
  then show "\<exists>b st'. handle_named_ANY_ref st k (t, Ref a) = Inr ((t, Ref b), st')
            \<and> map_of (cache st') k = Some (t, Ref a)
            \<and> b = length (objects st) \<and> wf_store st' \<and> b < length (objects st')
            \<and> repn_at st' b = repn_at st a
            \<and> (\<forall>c. c < length (objects st) \<longrightarrow> repn_at st' c = repn_at st c)
            \<and> (\<forall>m c. c < length (objects st') \<and> c \<noteq> b \<longrightarrow>
                  repn_at (mutate m b st') c = repn_at st' c)
            \<and> (\<forall>m. cache (mutate m b st') = cache st' \<and> wf_store (mutate m b st'))"
    by (simp add: handle_named_ANY_ref_def Let_def AList.update_conv')
next
  assume hit: "t \<noteq> CONSTANT \<and> map_of (cache st) k = Some (t, Ref a)"
  from duplicate_ref_independent[OF assms] obtain b st' where
    "duplicate_ref st a = Inr (b, st')" "cache st' = cache st"
    "b = length (objects st)" "wf_store st'" "b < length (objects st')"
    "repn_at st' b = repn_at st a"
    "\<forall>c. c < length (objects st) \<longrightarrow> repn_at st' c = repn_at st c"
    "\<forall>m c. c < length (objects st') \<and> c \<noteq> b \<longrightarrow> repn_at (mutate m b st') c = repn_at st' c"
    "\<forall>m. cache (mutate m b st') = cache st' \<and> wf_store (mutate m b st')"
    by auto
  with hit show "\<exists>b st'. before_named_expression_ref st k = Inr (RDone (t, Ref b), st')
               \<and> cache st' = cache st
               \<and> b = length (objects st) \<and> wf_store st' \<and> b < length (objects st')
               \<and> repn_at st' b = repn_at st a
               \<and> (\<forall>c. c < length (objects st) \<longrightarrow> repn_at st' c = repn_at st c)
               \<and> (\<forall>m c. c < length (objects st') \<and> c \<noteq> b \<longrightarrow>
                     repn_at (mutate m b st') c = repn_at st' c)
               \<and> (\<forall>m. cache (mutate m b st') = cache st' \<and> wf_store (mutate m b st'))"
    by (simp add: before_named_expression_ref_def)
qed

theorem cached_payload_is_never_aliased_witness:
  "wf_store example_store \<and> 0 < length (objects example_store)
   \<and> handle_named_ANY_ref example_store 5 (LINEAR, Ref 0) = Inr ((LINEAR, Ref 1), committed_store)
   \<and> map_of (cache committed_store) 5 = Some (LINEAR, Ref 0)
   \<and> repn_at committed_store 1 = repn_at example_store 0
   \<and> repn_at (mutate (SetMultiplier (Val (- 1))) 1 committed_store) 0 = repn_at example_store 0
   \<and> repn_at (mutate (SetLinear 0 (Val 7)) 1 committed_store) 0 = repn_at example_store 0
   \<and> repn_at (mutate (DelLinear 0) 1 committed_store) 0 = repn_at example_store 0
   \<and> wf_store committed_store \<and> 0 < length (objects committed_store)
   \<and> LINEAR \<noteq> CONSTANT
   \<and> before_named_expression_ref committed_store 5 =
       Inr (RDone (LINEAR, Ref 2),
            committed_store
              \<lparr>objects := objects committed_store @
                 [\<lparr>o_multiplier = Val 1, o_constant = Val 2, o_linear = 2, o_nonlinear = None\<rparr>],
               dicts := dicts committed_store @ [[(0, Val 1)]]\<rparr>)"
proof -
  have wf0: "wf_store example_store" by code_simp
  have a0: "0 < length (objects example_store)" by code_simp
  have wf1: "wf_store committed_store" by code_simp
  have a1: "0 < length (objects committed_store)" by code_simp
  have commit: "handle_named_ANY_ref example_store 5 (LINEAR, Ref 0) =
      Inr ((LINEAR, Ref 1), committed_store)"
    by code_simp
  have look: "map_of (cache committed_store) 5 = Some (LINEAR, Ref 0)" by code_simp
  have copy: "repn_at committed_store 1 = repn_at example_store 0" by code_simp
  have m1: "repn_at (mutate (SetMultiplier (Val (- 1))) 1 committed_store) 0 = repn_at example_store 0"
    by code_simp
  have m2: "repn_at (mutate (SetLinear 0 (Val 7)) 1 committed_store) 0 = repn_at example_store 0"
    by code_simp
  have m3: "repn_at (mutate (DelLinear 0) 1 committed_store) 0 = repn_at example_store 0"
    by code_simp
  have hit: "before_named_expression_ref committed_store 5 =
       Inr (RDone (LINEAR, Ref 2),
            committed_store
              \<lparr>objects := objects committed_store @
                 [\<lparr>o_multiplier = Val 1, o_constant = Val 2, o_linear = 2, o_nonlinear = None\<rparr>],
               dicts := dicts committed_store @ [[(0, Val 1)]]\<rparr>)"
    by code_simp
  from cached_payload_is_never_aliased[OF wf0 a0, where k=5 and t=LINEAR]
       cached_payload_is_never_aliased[OF wf1 a1, where k=5 and t=LINEAR]
       wf0 a0 wf1 a1 commit look copy m1 m2 m3 hit
  show ?thesis by simp
qed

section \<open>Scaling factors that are not numbers\<close>

text \<open>
  What holds of \<^verbatim>\<open>_get_float_scaling_factor\<close>: without a suffix value the factor is 1; a
  number is returned as it is; a string that does not spell a number is rejected with the
  error that names the value and the component.
\<close>

lemma get_float_scaling_factor_default:
  "suffix_finder suffixes component_data parent_comp = PyNone \<Longrightarrow>
     get_float_scaling_factor parse suffixes component_data parent_comp = Inr (Val 1)"
  by (simp add: get_float_scaling_factor_def)

lemma get_float_scaling_factor_number:
  "suffix_finder suffixes component_data parent_comp = PyNumber x \<Longrightarrow>
     get_float_scaling_factor parse suffixes component_data parent_comp = Inr x"
  by (simp add: get_float_scaling_factor_def)

lemma get_float_scaling_factor_bad_string:
  "suffix_finder suffixes component_data parent_comp = PyString s \<Longrightarrow> parse s = None \<Longrightarrow>
     get_float_scaling_factor parse suffixes component_data parent_comp =
       Inl (CannotConvert (PyString s) component_data)"
  by (simp add: get_float_scaling_factor_def)

text \<open>
  Claim C9: the scaling factor of a component is 1.0 when no suffix value is found, and a
  suffix value that cannot be converted to a real number is rejected at the point of use
  with a descriptive error that identifies the value and the component. A value such as a
  list, set on the suffix of the component's own block for the component itself, cannot
  be converted, and \<^verbatim>\<open>float\<close> raises \<^verbatim>\<open>TypeError\<close> for it; \<^verbatim>\<open>except ValueError\<close> lets that
  through, so the error that leaves the function is the one of \<^verbatim>\<open>float\<close>, which names
  neither the value nor the component.
\<close>

theorem get_float_scaling_factor_type_error:
  "get_float_scaling_factor parse [[(ComponentKey 0, PyOther 1)]] 0 0 = Inl FloatTypeError"
  by (simp add: get_float_scaling_factor_def suffix_finder_def)

end
